theory Spec2Isabelle
  imports Main
begin

section \<open>Outcomes of a call\<close>

text \<open>
  A call of the C++ code either returns, or stops on a failed \<^verbatim>\<open>assert\<close> (debug build),
  or runs into behaviour the language leaves undefined (a non-void function that ends
  without \<^verbatim>\<open>return\<close>, an index beyond a vector), or uses up the fuel that bounds the
  conflict loops of the model, or ends the run through the solver's fatal-error report.
  The four abnormal ends are the error values.
\<close>

datatype error = AssertionFailed | UndefinedBehaviour | OutOfFuel | FatalError

text \<open>
  \<^verbatim>\<open>assert (c)\<close>: with \<^verbatim>\<open>NDEBUG\<close> the check is compiled away and the code goes on.
\<close>

definition assert_holds :: "bool \<Rightarrow> bool \<Rightarrow> bool" where
  "assert_holds nd c = (nd \<or> c)"

section \<open>Limit manager: \<^verbatim>\<open>init_preprocessing_limits\<close>, \<^verbatim>\<open>init_search_limits\<close>\<close>

text \<open>
  The fields of \<^verbatim>\<open>opts\<close> that the two functions read.  All are \<^verbatim>\<open>int\<close> options of the
  solver; the boolean ones are read through C++'s conversion to \<^verbatim>\<open>bool\<close>
  (non-zero is true), which the model writes as \<open>\<noteq> 0\<close>.
\<close>

record limit_opts =
  subsumeint :: int
  elimint :: int
  elimboundmin :: int
  compactint :: int
  probeint :: int
  conditionint :: int
  reduceint :: int
  flushint :: int
  rephaseint :: int
  restartint :: int
  stabilize :: int
  stabilizeonly :: int
  stabilizeint :: int
  reluctant :: int
  reluctantmax :: int

text \<open>
  The part of \<^verbatim>\<open>Internal\<close> the two functions touch: \<^verbatim>\<open>lim.*\<close>, \<^verbatim>\<open>inc.*\<close>, \<^verbatim>\<open>last.*\<close>,
  \<^verbatim>\<open>stats.*\<close>, \<^verbatim>\<open>stable\<close>, the moving averages (kept abstract, type \<open>'avg\<close>) and the
  reluctant-doubling scheduler (\<open>Some (period, max)\<close> when enabled).  The counters and
  limits are \<^verbatim>\<open>int64_t\<close>: the fields hold integers, and every sum the code computes goes
  through \<open>add_int64\<close> below.
\<close>

record 'avg limits =
  lim_initialized :: bool
  lim_subsume :: int
  lim_elim :: int
  lim_elimbound :: int
  lim_compact :: int
  lim_probe :: int
  lim_condition :: int
  lim_preprocessing :: int
  lim_reduce :: int
  lim_flush :: int
  lim_rephase :: int
  lim_rephased0 :: int
  lim_rephased1 :: int
  lim_restart :: int
  lim_stabilize :: int
  lim_conflicts :: int
  lim_decisions :: int
  lim_localsearch :: int
  inc_preprocessing :: int
  inc_flush :: int
  inc_stabilize :: int
  inc_conflicts :: int
  inc_decisions :: int
  inc_localsearch :: int
  last_elim_marked :: int
  last_ternary_marked :: int
  last_reduce_conflicts :: int
  stats_conflicts :: int
  stats_decisions :: int
  stable :: bool
  averages :: 'avg
  reluctant_state :: "(int \<times> int) option"

text \<open>
  A sum of two \<^verbatim>\<open>int64_t\<close> values.  Signed overflow is undefined in C++: the sum is a
  value only when it lies in the range of the type.  Operands outside the range have
  no counterpart in the code and are treated alike.
\<close>

definition int64_range :: "int \<Rightarrow> bool" where
  "int64_range i = (- (2 ^ 63) \<le> i \<and> i < 2 ^ 63)"

definition add_int64 :: "int \<Rightarrow> int \<Rightarrow> error + int" where
  "add_int64 a b =
    (if int64_range a \<and> int64_range b \<and> int64_range (a + b) then Inr (a + b)
     else Inl UndefinedBehaviour)"

text \<open>One statement after the other: the second runs on the state the first returns.\<close>

definition and_then :: "error + 'a \<Rightarrow> ('a \<Rightarrow> error + 'b) \<Rightarrow> error + 'b" where
  "and_then r f = (case r of Inl e \<Rightarrow> Inl e | Inr x \<Rightarrow> f x)"








text \<open>
  \<^verbatim>\<open>init_search_limits\<close>, block by block as well.  \<open>init_averages\<close> and \<open>swap_averages\<close>
  are the two functions of the same names, defined elsewhere.  Besides an overflowing
  sum, the only abnormal end is the \<^verbatim>\<open>assert (stable)\<close> of the incremental, always-stable
  branch.
\<close>

definition init_reduce_limit :: "limit_opts \<Rightarrow> 'avg limits \<Rightarrow> error + 'avg limits" where
  "init_reduce_limit opts s =
    (if lim_initialized s then Inr s
     else case add_int64 (stats_conflicts s) (reduceint opts) of
       Inl e \<Rightarrow> Inl e
     | Inr v \<Rightarrow> Inr (s\<lparr>last_reduce_conflicts := -1, lim_reduce := v\<rparr>))"

definition init_flush_limit :: "limit_opts \<Rightarrow> 'avg limits \<Rightarrow> 'avg limits" where
  "init_flush_limit opts s =
    (if lim_initialized s then s
     else s\<lparr>lim_flush := flushint opts, inc_flush := flushint opts\<rparr>)"

definition init_rephase_limit :: "limit_opts \<Rightarrow> 'avg limits \<Rightarrow> error + 'avg limits" where
  "init_rephase_limit opts s =
    (case add_int64 (stats_conflicts s) (rephaseint opts) of
       Inl e \<Rightarrow> Inl e
     | Inr v \<Rightarrow> Inr (s\<lparr>lim_rephase := v, lim_rephased0 := 0, lim_rephased1 := 0\<rparr>))"

definition init_restart_limit :: "limit_opts \<Rightarrow> 'avg limits \<Rightarrow> error + 'avg limits" where
  "init_restart_limit opts s =
    (case add_int64 (stats_conflicts s) (restartint opts) of
       Inl e \<Rightarrow> Inl e
     | Inr v \<Rightarrow> Inr (s\<lparr>lim_restart := v\<rparr>))"

definition init_stable_phase ::
  "bool \<Rightarrow> ('avg \<Rightarrow> 'avg) \<Rightarrow> ('avg \<Rightarrow> 'avg) \<Rightarrow> limit_opts \<Rightarrow> 'avg limits
     \<Rightarrow> error + 'avg limits" where
  "init_stable_phase nd init_averages swap_averages opts s =
    (if \<not> lim_initialized s
     then Inr (s\<lparr>stable := (stabilize opts \<noteq> 0 \<and> stabilizeonly opts \<noteq> 0),
                averages := init_averages (averages s)\<rparr>)
     else if stabilize opts \<noteq> 0 \<and> stabilizeonly opts \<noteq> 0
     then (if assert_holds nd (stable s) then Inr s else Inl AssertionFailed)
     else if stable s
     then Inr (s\<lparr>stable := False, averages := swap_averages (averages s)\<rparr>)
     else Inr s)"

definition init_stabilize_limit :: "limit_opts \<Rightarrow> 'avg limits \<Rightarrow> error + 'avg limits" where
  "init_stabilize_limit opts s =
    (let s1 = s\<lparr>inc_stabilize := stabilizeint opts\<rparr> in
     case add_int64 (stats_conflicts s1) (inc_stabilize s1) of
       Inl e \<Rightarrow> Inl e
     | Inr v \<Rightarrow> Inr (s1\<lparr>lim_stabilize := v\<rparr>))"

definition init_reluctant :: "limit_opts \<Rightarrow> 'avg limits \<Rightarrow> 'avg limits" where
  "init_reluctant opts s =
    (if stabilize opts \<noteq> 0 \<and> reluctant opts \<noteq> 0
     then s\<lparr>reluctant_state := Some (reluctant opts, reluctantmax opts)\<rparr>
     else s\<lparr>reluctant_state := None\<rparr>)"

definition init_conflict_limit :: "'avg limits \<Rightarrow> error + 'avg limits" where
  "init_conflict_limit s =
    (if inc_conflicts s < 0 then Inr (s\<lparr>lim_conflicts := -1\<rparr>)
     else case add_int64 (stats_conflicts s) (inc_conflicts s) of
       Inl e \<Rightarrow> Inl e
     | Inr v \<Rightarrow> Inr (s\<lparr>lim_conflicts := v\<rparr>))"

definition init_decision_limit :: "'avg limits \<Rightarrow> error + 'avg limits" where
  "init_decision_limit s =
    (if inc_decisions s < 0 then Inr (s\<lparr>lim_decisions := -1\<rparr>)
     else case add_int64 (stats_decisions s) (inc_decisions s) of
       Inl e \<Rightarrow> Inl e
     | Inr v \<Rightarrow> Inr (s\<lparr>lim_decisions := v\<rparr>))"

definition init_localsearch_rounds :: "'avg limits \<Rightarrow> 'avg limits" where
  "init_localsearch_rounds s =
    (if inc_localsearch s \<le> 0 then s\<lparr>lim_localsearch := 0\<rparr>
     else s\<lparr>lim_localsearch := inc_localsearch s\<rparr>)"

definition init_search_limits ::
  "bool \<Rightarrow> ('avg \<Rightarrow> 'avg) \<Rightarrow> ('avg \<Rightarrow> 'avg) \<Rightarrow> limit_opts \<Rightarrow> 'avg limits
     \<Rightarrow> error + 'avg limits" where
  "init_search_limits nd init_averages swap_averages opts s =
    and_then (init_reduce_limit opts s) (\<lambda>s1.
    and_then (init_rephase_limit opts (init_flush_limit opts s1)) (\<lambda>s3.
    and_then (init_restart_limit opts s3) (\<lambda>s4.
    and_then (init_stable_phase nd init_averages swap_averages opts s4) (\<lambda>s5.
    and_then (init_stabilize_limit opts s5) (\<lambda>s6.
    and_then (init_conflict_limit (init_reluctant opts s6)) (\<lambda>s8.
    and_then (init_decision_limit s8) (\<lambda>s9.
    Inr ((init_localsearch_rounds s9)\<lparr>lim_initialized := True\<rparr>))))))))"




subsection \<open>Concrete limit states\<close>

definition limits0 :: "unit limits" where
  "limits0 = \<lparr>lim_initialized = False, lim_subsume = 0, lim_elim = 0, lim_elimbound = 0,
     lim_compact = 0, lim_probe = 0, lim_condition = 0, lim_preprocessing = 0,
     lim_reduce = 0, lim_flush = 0, lim_rephase = 0, lim_rephased0 = 0, lim_rephased1 = 0,
     lim_restart = 0, lim_stabilize = 0, lim_conflicts = 0, lim_decisions = 0,
     lim_localsearch = 0, inc_preprocessing = 0, inc_flush = 0, inc_stabilize = 0,
     inc_conflicts = -1, inc_decisions = -1, inc_localsearch = 0, last_elim_marked = 0,
     last_ternary_marked = 0, last_reduce_conflicts = 0, stats_conflicts = 0,
     stats_decisions = 0, stable = False, averages = (), reluctant_state = None\<rparr>"

definition limit_opts0 :: limit_opts where
  "limit_opts0 = \<lparr>subsumeint = 10000, elimint = 2000, elimboundmin = 0, compactint = 2000,
     probeint = 5000, conditionint = 10000, reduceint = 300, flushint = 100000,
     rephaseint = 1000, restartint = 2, stabilize = 1, stabilizeonly = 0,
     stabilizeint = 1000, reluctant = 1024, reluctantmax = 1048576\<rparr>"


section \<open>Global preprocessing: the solver state and its collaborators\<close>

text \<open>
  A clause of the database (\<^verbatim>\<open>Clause\<close>): its literals and the two flags the derivation
  reads; \<^verbatim>\<open>c->size\<close> is the length of the literal list.
\<close>

record Clause =
  literals :: "int list"
  redundant :: bool
  garbage :: bool

text \<open>
  The options read by the global preprocessor.  The switches are \<^verbatim>\<open>int\<close> options read as
  booleans (non-zero is true); the three bounds are \<^verbatim>\<open>int\<close>.
\<close>

record global_opts =
  globalalphaasort :: bool
  globalalphaarandom :: bool
  globalalphaagreedy :: bool
  globalchessheur :: bool
  globalbcp :: bool
  globalnoshrink :: bool
  globalfiltertriv :: bool
  globallearn :: bool
  globalrecord :: bool
  globalmaxclause :: int
  globalmaxlen :: int
  globaltimelim :: int
  globaltouch :: bool
  globalisort :: bool
  globalorderi :: bool
  globalbothpol :: bool

text \<open>
  The functions of \<^verbatim>\<open>Internal\<close> that this file calls and does not define (propagation,
  conflict analysis, backtracking, the assignment and flag tables, watch lists, the
  learned-clause constructors, the clock) are parameters of the model: a record of
  functions over a solver state of any type \<open>'s\<close>.  Nothing is assumed about them except
  where a theorem states it as a hypothesis.

  \<^item> \<open>ndebug\<close>: whether the build compiles \<^verbatim>\<open>assert\<close> away;
  \<^item> \<open>propagate\<close> returns the flag of the C++ function (false on a conflict) and the new state;
  \<^item> \<open>backtrack\<close> takes the target level (\<^verbatim>\<open>backtrack ()\<close> is \<open>backtrack 0\<close>);
  \<^item> \<open>flags_fixed s lit\<close> is \<^verbatim>\<open>flags (lit).status == Flags::FIXED\<close>;
  \<^item> \<open>var_level s lit\<close> is \<^verbatim>\<open>var (lit).level\<close>; \<open>proof_on\<close> is \<^verbatim>\<open>proof != 0\<close>;
  \<^item> \<open>time_now\<close> is \<^verbatim>\<open>time ()\<close>: the clock is read off the solver state, in whole units
    (time passes in the collaborators; \<^verbatim>\<open>original_time\<close> is a \<^verbatim>\<open>double\<close> in the drivers and
    an \<^verbatim>\<open>int\<close> in \<^verbatim>\<open>least_conditional_part\<close>, the same number in whole units);
  \<^item> \<open>new_learned_weak_irredundant_global_clause\<close> takes the member \<^verbatim>\<open>clause\<close> (set by
    \<^verbatim>\<open>add_clause\<close> just before) as its first argument; \<open>assign_original_unit_gbc\<close>
    takes the unit literal and the antecedent set, the increment of \<^verbatim>\<open>clause_id\<close> is its own;
  \<^item> \<open>shuffle\<close> is the outcome of \<^verbatim>\<open>std::shuffle\<close> with a fresh random device;
  \<^item> \<open>global_index\<close> is the position of a literal's bit in \<^verbatim>\<open>globalmarks\<close>;
  \<^item> \<open>active\<close>, \<open>getbit\<close>, \<open>setbit\<close>, \<open>unsetbit\<close> are the functions of these names
    (the literal bits of \<^verbatim>\<open>get_touched_literals\<close> live in the solver's tables).
\<close>

record 's collab =
  ndebug :: bool
  propagate :: "'s \<Rightarrow> bool \<times> 's"
  analyze :: "'s \<Rightarrow> 's"
  backtrack :: "nat \<Rightarrow> 's \<Rightarrow> 's"
  search_assume_decision :: "int \<Rightarrow> 's \<Rightarrow> 's"
  val :: "'s \<Rightarrow> int \<Rightarrow> int"
  flags_fixed :: "'s \<Rightarrow> int \<Rightarrow> bool"
  is_decision :: "'s \<Rightarrow> int \<Rightarrow> bool"
  var_level :: "'s \<Rightarrow> int \<Rightarrow> int"
  unsat :: "'s \<Rightarrow> bool"
  level :: "'s \<Rightarrow> nat"
  clauses :: "'s \<Rightarrow> Clause list"
  watches :: "'s \<Rightarrow> int \<Rightarrow> Clause list"
  proof_on :: "'s \<Rightarrow> bool"
  max_var :: "'s \<Rightarrow> int"
  time_now :: "'s \<Rightarrow> int"
  new_learned_weak_irredundant_global_clause ::
    "int list \<Rightarrow> int \<Rightarrow> int list \<Rightarrow> int list \<Rightarrow> 's \<Rightarrow> 's"
  assign_original_unit_gbc :: "int \<Rightarrow> int list \<Rightarrow> 's \<Rightarrow> 's"
  shuffle :: "int list \<Rightarrow> int list"
  global_index :: "int \<Rightarrow> nat"
  active :: "'s \<Rightarrow> int \<Rightarrow> bool"
  getbit :: "'s \<Rightarrow> int \<Rightarrow> nat \<Rightarrow> bool"
  setbit :: "int \<Rightarrow> nat \<Rightarrow> 's \<Rightarrow> 's"
  unsetbit :: "int \<Rightarrow> nat \<Rightarrow> 's \<Rightarrow> 's"

text \<open>
  The state this file owns besides the solver: the mark bitset \<^verbatim>\<open>globalmarks\<close> (the set of
  positions whose bit is 1), the member \<^verbatim>\<open>global_try\<close>, and the two output streams (one
  list of literals for each line written).  \<open>learnt\<close> is a log of the clauses handed to the
  two learned-clause constructors, in order: the constructors are collaborators, so the
  model notes the hand-over next to applying them.
\<close>

record 's gstate =
  solver :: 's
  globalmarks :: "nat set"
  global_try :: "int list"
  outFile :: "int list list"
  outFile_pr :: "int list list"
  learnt :: "int list list"

text \<open>
  Modelled from the spec: \<^verbatim>\<open>global_getbit\<close>, \<^verbatim>\<open>global_setbit\<close> and \<^verbatim>\<open>global_unsetbit\<close> are
  declared outside this file.  The spec has one bit for each literal in \<^verbatim>\<open>globalmarks\<close>,
  marking "already included in the negated conditional part".
\<close>

definition global_getbit :: "'s collab \<Rightarrow> 's gstate \<Rightarrow> int \<Rightarrow> bool" where
  "global_getbit E g lit = (global_index E lit \<in> globalmarks g)"

definition global_setbit :: "'s collab \<Rightarrow> int \<Rightarrow> 's gstate \<Rightarrow> 's gstate" where
  "global_setbit E lit g = g\<lparr>globalmarks := insert (global_index E lit) (globalmarks g)\<rparr>"

definition global_unsetbit :: "'s collab \<Rightarrow> int \<Rightarrow> 's gstate \<Rightarrow> 's gstate" where
  "global_unsetbit E lit g = g\<lparr>globalmarks := globalmarks g - {global_index E lit}\<rparr>"

text \<open>
  Modelled from the spec: the tables behind \<^verbatim>\<open>flags\<close>, \<^verbatim>\<open>val\<close> and \<^verbatim>\<open>var\<close> are declared
  outside this file.  By the spec's data model a literal is a non-zero integer whose
  absolute value is a variable index in \<open>[1, max_var]\<close>; a call with any other literal
  reads outside the tables.  The literals of the clause database are in range; the
  model writes the check out where literals come from the hard-coded schedule.
\<close>

definition in_range :: "'s collab \<Rightarrow> 's \<Rightarrow> int \<Rightarrow> bool" where
  "in_range E s lit = (lit \<noteq> 0 \<and> \<bar>lit\<bar> \<le> max_var E s)"

section \<open>Triviality check\<close>

text \<open>
  \<^verbatim>\<open>c.size() > opts.globalmaxlen\<close> compares a \<^verbatim>\<open>size_t\<close> with an \<^verbatim>\<open>int\<close>: the \<^verbatim>\<open>int\<close> is
  converted to the unsigned 64-bit type first, so a negative bound becomes a huge one.
\<close>

definition size_t_of_int :: "int \<Rightarrow> int" where
  "size_t_of_int i = i mod 2 ^ 64"

text \<open>
  \<^verbatim>\<open>while (!unsat && !propagate ()) analyze ();\<close>  The loop need not end for arbitrary
  collaborators; \<open>fuel\<close> bounds the number of \<^verbatim>\<open>propagate\<close> calls, and running out of it
  is the error \<open>OutOfFuel\<close>.
\<close>

fun conflict_loop :: "'s collab \<Rightarrow> nat \<Rightarrow> 's \<Rightarrow> error + 's" where
  "conflict_loop E 0 s = (if unsat E s then Inr s else Inl OutOfFuel)"
| "conflict_loop E (Suc n) s =
    (if unsat E s then Inr s
     else case propagate E s of
       (ok, s') \<Rightarrow> if ok then Inr s' else conflict_loop E n (analyze E s'))"

text \<open>The \<^verbatim>\<open>for (auto lit : c)\<close> loop of \<^verbatim>\<open>check_if_clause_trivial\<close>; the result is
  \<^verbatim>\<open>is_trivial\<close> at the end of the loop.\<close>

fun trivial_loop :: "'s collab \<Rightarrow> nat \<Rightarrow> int list \<Rightarrow> 's \<Rightarrow> error + (bool \<times> 's)" where
  "trivial_loop E fuel [] s = Inr (False, s)"
| "trivial_loop E fuel (lit # c) s =
    (if val E s lit > 0 then Inr (True, s)
     else if val E s lit < 0 then trivial_loop E fuel c s
     else case propagate E (search_assume_decision E (-1 * lit) s) of
       (ok, s2) \<Rightarrow>
         if \<not> ok
         then (case conflict_loop E fuel (analyze E s2) of
                 Inl e \<Rightarrow> Inl e
               | Inr s3 \<Rightarrow> Inr (True, s3))
         else trivial_loop E fuel c s2)"

definition check_if_clause_trivial ::
  "'s collab \<Rightarrow> global_opts \<Rightarrow> nat \<Rightarrow> int list \<Rightarrow> 's \<Rightarrow> error + (bool \<times> 's)" where
  "check_if_clause_trivial E opts fuel c s =
    (if int (length c) > size_t_of_int (globalmaxlen opts) then Inr (True, s)
     else case trivial_loop E fuel c (backtrack E 0 s) of
       Inl e \<Rightarrow> Inl e
     | Inr (is_trivial, s') \<Rightarrow> Inr (is_trivial, backtrack E 0 s'))"

section \<open>Ordering the antecedent literals\<close>

text \<open>
  \<^verbatim>\<open>compare_alpha_a (a, b)\<close>.  A conflict here fails \<^verbatim>\<open>assert (false)\<close>; with the assert
  compiled away control reaches the final \<^verbatim>\<open>return false\<close>.
\<close>

definition compare_alpha_a :: "'s collab \<Rightarrow> int \<Rightarrow> int \<Rightarrow> 's \<Rightarrow> error + (bool \<times> 's)" where
  "compare_alpha_a E a b s =
    (case propagate E (search_assume_decision E a (backtrack E 0 s)) of
       (ok, s2) \<Rightarrow>
         if \<not> ok then (if ndebug E then Inr (False, s2) else Inl AssertionFailed)
         else if val E s2 b > 0 then Inr (True, s2)
         else Inr (False, s2))"

text \<open>
  \<^verbatim>\<open>imp_sort_alpha_a\<close>: the inner loop runs \<open>j\<close> over the given indices for a fixed \<open>i\<close>,
  the outer loop runs \<open>i\<close>.  Both indices stay below the length, which the swaps keep.
\<close>

fun imp_sort_inner ::
  "'s collab \<Rightarrow> nat \<Rightarrow> nat list \<Rightarrow> int list \<Rightarrow> 's \<Rightarrow> error + (int list \<times> 's)" where
  "imp_sort_inner E i [] alpha_a s = Inr (alpha_a, s)"
| "imp_sort_inner E i (j # js) alpha_a s =
    (case compare_alpha_a E (alpha_a ! j) (alpha_a ! i) s of
       Inl e \<Rightarrow> Inl e
     | Inr (swap, s') \<Rightarrow>
         imp_sort_inner E i js
           (if swap then alpha_a[j := alpha_a ! i, i := alpha_a ! j] else alpha_a) s')"

fun imp_sort_outer ::
  "'s collab \<Rightarrow> nat list \<Rightarrow> int list \<Rightarrow> 's \<Rightarrow> error + (int list \<times> 's)" where
  "imp_sort_outer E [] alpha_a s = Inr (alpha_a, s)"
| "imp_sort_outer E (i # is) alpha_a s =
    (case imp_sort_inner E i [Suc i ..< length alpha_a] alpha_a s of
       Inl e \<Rightarrow> Inl e
     | Inr (alpha_a', s') \<Rightarrow> imp_sort_outer E is alpha_a' s')"

definition imp_sort_alpha_a :: "'s collab \<Rightarrow> int list \<Rightarrow> 's \<Rightarrow> error + (int list \<times> 's)" where
  "imp_sort_alpha_a E alpha_a s = imp_sort_outer E [0 ..< length alpha_a] alpha_a s"

definition custom_sort_alpha_a ::
  "'s collab \<Rightarrow> global_opts \<Rightarrow> int list \<Rightarrow> 's \<Rightarrow> error + (int list \<times> 's)" where
  "custom_sort_alpha_a E opts alpha_a s =
    (if globalalphaasort opts then imp_sort_alpha_a E alpha_a s
     else if globalalphaarandom opts then Inr (shuffle E alpha_a, s)
     else Inr (alpha_a, s))"

section \<open>Greedy set cover\<close>

text \<open>
  An \<^verbatim>\<open>unordered_set<int>\<close> is modelled as a list without repetitions: building one from
  a vector is \<open>remdups\<close>, inserting a range is \<open>List.union\<close>, \<^verbatim>\<open>erase\<close> is
  \<open>removeAll\<close>.  The order in which the C++ container enumerates its elements is left
  open by the language; the properties below speak about the sets of elements only.
\<close>

text \<open>\<^verbatim>\<open>distance (v.begin (), find (v.begin (), v.end (), x))\<close>: the length when \<open>x\<close> is absent.\<close>

definition find_index :: "int \<Rightarrow> int list \<Rightarrow> nat" where
  "find_index x v = length (takeWhile (\<lambda>y. y \<noteq> x) v)"

text \<open>
  The loop of \<^verbatim>\<open>greedySetCoverSpecial\<close> over \<^verbatim>\<open>curr_global_try\<close>, on
  (\<^verbatim>\<open>chosen_subsets\<close>, \<^verbatim>\<open>covered\<close>, \<^verbatim>\<open>uncovered\<close>).  An index beyond \<^verbatim>\<open>subsets\<close> fails the
  first assert; without asserts \<^verbatim>\<open>subsets[learn_idx]\<close> reads beyond the vector.
\<close>

fun special_loop ::
  "bool \<Rightarrow> int list \<Rightarrow> int list \<Rightarrow> int list list \<Rightarrow> nat list \<times> int list \<times> int list
     \<Rightarrow> error + (nat list \<times> int list \<times> int list)" where
  "special_loop nd [] alpha_a subsets acc = Inr acc"
| "special_loop nd (learn # rest) alpha_a subsets (chosen_subsets, covered, uncovered) =
    (let learn_idx = find_index learn alpha_a in
     if \<not> learn_idx < length subsets
     then (if nd then Inl UndefinedBehaviour else Inl AssertionFailed)
     else if \<not> assert_holds nd (length alpha_a = length subsets) then Inl AssertionFailed
     else special_loop nd rest alpha_a subsets
            (chosen_subsets @ [learn_idx],
             List.union (subsets ! learn_idx) covered,
             fold removeAll (subsets ! learn_idx) uncovered))"

definition greedySetCoverSpecial ::
  "bool \<Rightarrow> int list \<Rightarrow> int list \<Rightarrow> int list list \<Rightarrow> int list
     \<Rightarrow> error + (nat list \<times> int list)" where
  "greedySetCoverSpecial nd curr_global_try alpha_a subsets total_elements =
    (case special_loop nd curr_global_try alpha_a subsets ([], [], remdups total_elements) of
       Inl e \<Rightarrow> Inl e
     | Inr (chosen_subsets, covered, uncovered) \<Rightarrow> Inr (chosen_subsets, uncovered))"

text \<open>\<^verbatim>\<open>greedySetCover\<close>: the count of elements of one subset not yet covered, the scan for
  the subset with the largest count (the first one among equals, \<open>-1\<close> when every count
  is 0), and the selection loop.\<close>

definition new_elements :: "int list \<Rightarrow> int list \<Rightarrow> nat" where
  "new_elements covered sub = length (filter (\<lambda>elem. elem \<notin> set covered) sub)"

fun best_subset :: "int list \<Rightarrow> int list list \<Rightarrow> nat \<Rightarrow> int \<times> nat \<Rightarrow> int \<times> nat" where
  "best_subset covered [] i acc = acc"
| "best_subset covered (sub # rest) i (best_idx, max_new_elements) =
    best_subset covered rest (Suc i)
      (if new_elements covered sub > max_new_elements
       then (int i, new_elements covered sub)
       else (best_idx, max_new_elements))"

function greedy_loop ::
  "int list list \<Rightarrow> int list \<Rightarrow> nat list \<times> int list \<times> int list
     \<Rightarrow> nat list \<times> int list \<times> int list" where
  "greedy_loop subsets total_elements (chosen_subsets, covered, uncovered) =
    (if length covered < length total_elements
     then (let best_idx = fst (best_subset covered subsets 0 (-1, 0)) in
           if best_idx = -1 then (chosen_subsets, covered, uncovered)
           else greedy_loop subsets total_elements
                  (chosen_subsets @ [nat best_idx],
                   List.union (subsets ! nat best_idx) covered,
                   fold removeAll (subsets ! nat best_idx) uncovered))
     else (chosen_subsets, covered, uncovered))"
  by pat_completeness auto

text \<open>
  Every round of the loop that goes on adds an element to \<^verbatim>\<open>covered\<close> that belongs to one
  of the subsets, so the loop ends.
\<close>

lemma best_subset_inv:
  assumes "(b0 = -1 \<and> m0 = 0) \<or> (0 \<le> b0 \<and> nat b0 < length pre \<and> m0 > 0 \<and>
             new_elements covered ((pre @ subs) ! nat b0) = m0)"
    and "best_subset covered subs (length pre) (b0, m0) = (b, m)"
  shows "(b = -1 \<and> m = 0) \<or> (0 \<le> b \<and> nat b < length (pre @ subs) \<and> m > 0 \<and>
             new_elements covered ((pre @ subs) ! nat b) = m)"
  using assms
proof (induction subs arbitrary: pre b0 m0)
  case Nil
  then show ?case by auto
next
  case (Cons sub rest)
  let ?acc = "if new_elements covered sub > m0 then (int (length pre), new_elements covered sub) else (b0, m0)"
  have step: "best_subset covered rest (length (pre @ [sub])) ?acc = (b, m)"
    using Cons.prems(2) by simp
  have inv: "(fst ?acc = -1 \<and> snd ?acc = 0) \<or> (0 \<le> fst ?acc \<and> nat (fst ?acc) < length (pre @ [sub]) \<and> snd ?acc > 0 \<and>
             new_elements covered (((pre @ [sub]) @ rest) ! nat (fst ?acc)) = snd ?acc)"
    using Cons.prems(1) by (auto simp: nth_append)
  from Cons.IH [of "fst ?acc" "snd ?acc" "pre @ [sub]"] inv step
  show ?case by (simp split: if_splits)
qed

termination greedy_loop
proof (relation "measure (\<lambda>(subsets, total, chosen, covered, uncovered).
          card (\<Union> (set ` set subsets) - set covered))")
  show "wf (measure (\<lambda>(subsets, total, chosen, covered, uncovered).
          card (\<Union> (set ` set subsets) - set covered)))" by simp
next
  fix subsets :: "int list list" and total_elements :: "int list" and chosen_subsets :: "nat list"
    and covered uncovered :: "int list" and x :: int
  assume lt: "length covered < length total_elements"
    and x: "x = fst (best_subset covered subsets 0 (- 1, 0))"
    and ne: "x \<noteq> - 1"
  obtain m where bm: "best_subset covered subsets (length ([]::int list list)) (-1, 0) = (x, m)"
    using x by (cases "best_subset covered subsets 0 (- 1, 0)") simp
  from best_subset_inv [OF _ bm] ne
  have b: "0 \<le> x" "nat x < length subsets" "m > 0"
    "new_elements covered (subsets ! nat x) = m" by auto
  let ?sub = "subsets ! nat x"
  from b obtain e where e: "e \<in> set ?sub" "e \<notin> set covered"
    unfolding new_elements_def
    by (metis (mono_tags, lifting) filter_False length_0_conv less_numeral_extra(3))
  have sub: "set ?sub \<subseteq> \<Union> (set ` set subsets)"
    using nth_mem [OF b(2)] by blast
  have fin: "finite (\<Union> (set ` set subsets) - set covered)" by simp
  have "\<Union> (set ` set subsets) - set (List.union ?sub covered)
          \<subset> \<Union> (set ` set subsets) - set covered"
    using e sub by auto
  from psubset_card_mono [OF fin this]
  show "((subsets, total_elements, chosen_subsets @ [nat x], List.union ?sub covered,
           fold removeAll ?sub uncovered),
         (subsets, total_elements, chosen_subsets, covered, uncovered))
        \<in> measure (\<lambda>(subsets, total, chosen, covered, uncovered).
             card (\<Union> (set ` set subsets) - set covered))"
    by simp
qed

text \<open>The equation of the loop is unfolded by hand where it is needed.\<close>

declare greedy_loop.simps [simp del]

definition greedySetCover :: "int list list \<Rightarrow> int list \<Rightarrow> nat list \<times> int list" where
  "greedySetCover subsets total_elements =
    (case greedy_loop subsets total_elements ([], [], remdups total_elements) of
       (chosen_subsets, covered, uncovered) \<Rightarrow> (chosen_subsets, uncovered))"

section \<open>The four ways to shrink the conditional part\<close>

text \<open>The set of literals of \<^verbatim>\<open>neg_alpha_c\<close> that are false now (\<^verbatim>\<open>propagated\<close>).\<close>

definition propagated_set :: "'s collab \<Rightarrow> 's \<Rightarrow> int list \<Rightarrow> int list" where
  "propagated_set E s neg_alpha_c = remdups (filter (\<lambda>l. val E s l < 0) neg_alpha_c)"

text \<open>
  The \<^verbatim>\<open>for\<close> loop of \<^verbatim>\<open>greedy_sort_alpha_a\<close> on (\<^verbatim>\<open>alpha_a_useful\<close>,
  \<^verbatim>\<open>alpha_a_propagated\<close>, solver).  The two \<^verbatim>\<open>break\<close>s end the recursion, \<^verbatim>\<open>continue\<close>
  goes on with the rest.
\<close>

fun greedy_collect ::
  "'s collab \<Rightarrow> int list \<Rightarrow> int list \<Rightarrow> int list \<times> int list list \<times> 's
     \<Rightarrow> int list \<times> int list list \<times> 's" where
  "greedy_collect E [] neg_alpha_c acc = acc"
| "greedy_collect E (a # rest) neg_alpha_c (alpha_a_useful, alpha_a_propagated, s) =
    (if flags_fixed E s a
     then greedy_collect E rest neg_alpha_c (alpha_a_useful, alpha_a_propagated, s)
     else case propagate E (search_assume_decision E (- a) (backtrack E 0 s)) of
       (ok, s2) \<Rightarrow>
         if \<not> ok
         then (let s3 = analyze E s2 in
               if unsat E s3 then (alpha_a_useful, alpha_a_propagated, s3)
               else case propagate E s3 of
                 (ok2, s4) \<Rightarrow>
                   if \<not> ok2 then (alpha_a_useful, alpha_a_propagated, analyze E s4)
                   else greedy_collect E rest neg_alpha_c
                          (alpha_a_useful, alpha_a_propagated, s4))
         else (let propagated = propagated_set E s2 neg_alpha_c in
               if length propagated > 0
               then greedy_collect E rest neg_alpha_c
                      (alpha_a_useful @ [a], alpha_a_propagated @ [propagated], s2)
               else greedy_collect E rest neg_alpha_c
                      (alpha_a_useful, alpha_a_propagated, s2)))"

text \<open>
  \<^verbatim>\<open>greedy_sort_alpha_a\<close>.  The call of \<^verbatim>\<open>greedySetCover\<close> is commented out in the source;
  the selection in use is \<^verbatim>\<open>greedySetCoverSpecial\<close> with the member \<^verbatim>\<open>global_try\<close> and the
  whole of \<^verbatim>\<open>alpha_a\<close>.  \<^verbatim>\<open>alpha_a_useful[index]\<close> beyond the vector is undefined.
\<close>

definition greedy_sort_alpha_a ::
  "'s collab \<Rightarrow> int list \<Rightarrow> 's \<Rightarrow> int list \<Rightarrow> int list
     \<Rightarrow> error + ((int list \<times> int list) \<times> 's)" where
  "greedy_sort_alpha_a E gtry s alpha_a neg_alpha_c =
    (case greedy_collect E alpha_a neg_alpha_c ([], [], s) of
       (alpha_a_useful, alpha_a_propagated, s1) \<Rightarrow>
         (case greedySetCoverSpecial (ndebug E) gtry alpha_a alpha_a_propagated neg_alpha_c of
            Inl e \<Rightarrow> Inl e
          | Inr (chosen_indices, neg_alpha_c_without_c0) \<Rightarrow>
              if list_all (\<lambda>index. index < length alpha_a_useful) chosen_indices
              then Inr ((map (\<lambda>index. alpha_a_useful ! index) chosen_indices,
                         neg_alpha_c_without_c0), backtrack E 0 s1)
              else Inl UndefinedBehaviour))"

text \<open>
  The loop of \<^verbatim>\<open>greedy_sort_alpha_a_special\<close> over \<^verbatim>\<open>global_try\<close> on
  (\<^verbatim>\<open>global_try_final\<close>, \<^verbatim>\<open>propagated\<close>, solver).  \<open>Inr (Inl s)\<close> is the
  \<^verbatim>\<open>return make_pair (empty, empty)\<close> inside the loop, \<open>Inr (Inr _)\<close> the normal end.
  The literals of \<^verbatim>\<open>global_try\<close> come from the schedule of the fixed-schedule driver.
\<close>

fun special_collect ::
  "'s collab \<Rightarrow> int list \<Rightarrow> int list \<Rightarrow> int list \<Rightarrow> int list \<times> int list \<times> 's
     \<Rightarrow> error + ('s + int list \<times> int list \<times> 's)" where
  "special_collect E [] alpha_a neg_alpha_c acc = Inr (Inr acc)"
| "special_collect E (learn # rest) alpha_a neg_alpha_c (global_try_final, propagated, s) =
    (let final' = (if learn \<in> set alpha_a then global_try_final @ [learn]
                   else global_try_final) in
     if \<not> in_range E s learn then Inl UndefinedBehaviour
     else if flags_fixed E s learn
     then special_collect E rest alpha_a neg_alpha_c (final', propagated, s)
     else if \<not> assert_holds (ndebug E) (val E s (- learn) \<ge> 0) then Inl AssertionFailed
     else if val E s (- learn) > 0
     then special_collect E rest alpha_a neg_alpha_c (final', propagated, s)
     else case propagate E (search_assume_decision E (- learn) s) of
       (ok, s2) \<Rightarrow>
         if \<not> ok
         then (case propagate E (analyze E s2) of
                 (ok2, s4) \<Rightarrow> if \<not> ok2 then Inr (Inl (analyze E s4)) else Inr (Inl s4))
         else special_collect E rest alpha_a neg_alpha_c
                (final', List.union (filter (\<lambda>l. val E s2 l < 0) neg_alpha_c) propagated, s2))"

definition greedy_sort_alpha_a_special ::
  "'s collab \<Rightarrow> int list \<Rightarrow> 's \<Rightarrow> int list \<Rightarrow> int list
     \<Rightarrow> error + ((int list \<times> int list) \<times> 's)" where
  "greedy_sort_alpha_a_special E gtry s alpha_a neg_alpha_c =
    (case special_collect E gtry alpha_a neg_alpha_c ([], [], backtrack E 0 s) of
       Inl e \<Rightarrow> Inl e
     | Inr (Inl s') \<Rightarrow> Inr (([], []), s')
     | Inr (Inr (global_try_final, propagated, s')) \<Rightarrow>
         if assert_holds (ndebug E) (length propagated = length neg_alpha_c)
         then Inr ((global_try_final, []), backtrack E 0 s')
         else Inl AssertionFailed)"

text \<open>
  \<^verbatim>\<open>bcp_shrink\<close>.  For one watched clause, the inner loop erases the first residual
  literal that the clause links to the antecedent and stops (\<open>erase_first\<close>);
  \<open>binary_link\<close> is the condition of the \<^verbatim>\<open>if\<close>.
\<close>

definition binary_link :: "Clause \<Rightarrow> int \<Rightarrow> int \<Rightarrow> bool" where
  "binary_link c a r =
    (length (literals c) = 2 \<and>
     ((literals c ! 0 = a \<and> literals c ! 1 = - r) \<or>
      (literals c ! 1 = a \<and> literals c ! 0 = - r)))"

fun erase_first :: "('a \<Rightarrow> bool) \<Rightarrow> 'a list \<Rightarrow> 'a list \<times> bool" where
  "erase_first P [] = ([], False)"
| "erase_first P (x # xs) =
    (if P x then (xs, True)
     else case erase_first P xs of (ys, found) \<Rightarrow> (x # ys, found))"

fun bcp_watch_loop :: "Clause list \<Rightarrow> int \<Rightarrow> int list \<times> bool \<Rightarrow> int list \<times> bool" where
  "bcp_watch_loop [] a acc = acc"
| "bcp_watch_loop (c # ws) a (neg_alpha_c_minus_c0, keep_i) =
    (case erase_first (binary_link c a) neg_alpha_c_minus_c0 of
       (residual, found) \<Rightarrow> bcp_watch_loop ws a (residual, keep_i \<or> found))"

fun bcp_shrink_loop ::
  "'s collab \<Rightarrow> 's \<Rightarrow> int list \<Rightarrow> int list \<times> int list \<Rightarrow> int list \<times> int list" where
  "bcp_shrink_loop E s [] acc = acc"
| "bcp_shrink_loop E s (a # rest) (alpha_a_useful, neg_alpha_c_minus_c0) =
    (if flags_fixed E s a
     then bcp_shrink_loop E s rest (alpha_a_useful, neg_alpha_c_minus_c0)
     else case bcp_watch_loop (watches E s a) a (neg_alpha_c_minus_c0, False) of
       (residual, keep_i) \<Rightarrow>
         bcp_shrink_loop E s rest
           (if keep_i then alpha_a_useful @ [a] else alpha_a_useful, residual))"

text \<open>
  \<^verbatim>\<open>bcp_shrink\<close> is \<^verbatim>\<open>void\<close> and takes its three vectors by value: the loop works on the
  function's own copies, and the caller gets nothing back.
\<close>

definition bcp_shrink :: "'s collab \<Rightarrow> 's \<Rightarrow> int list \<Rightarrow> int list \<Rightarrow> int list \<Rightarrow> unit" where
  "bcp_shrink E s alpha_a alpha_a_useful neg_alpha_c_minus_c0 =
    (case bcp_shrink_loop E s alpha_a (alpha_a_useful, neg_alpha_c_minus_c0) of
       (useful_copy, residual_copy) \<Rightarrow> ())"

text \<open>
  \<^verbatim>\<open>propagate_shrink\<close>.  \<open>erase_falsified\<close> is the inner loop (erase every literal that is
  false, remember in \<^verbatim>\<open>keep_i\<close> whether one was).  The outer loop ends with \<open>Inl s\<close> at the
  \<^verbatim>\<open>return false\<close> and with \<open>Inr\<close> of the function's own copies and the solver otherwise.
\<close>

fun erase_falsified :: "'s collab \<Rightarrow> 's \<Rightarrow> int list \<Rightarrow> int list \<times> bool" where
  "erase_falsified E s [] = ([], False)"
| "erase_falsified E s (l # ls) =
    (case erase_falsified E s ls of
       (residual, keep_i) \<Rightarrow>
         if val E s l < 0 then (residual, True) else (l # residual, keep_i))"

fun propagate_shrink_loop ::
  "'s collab \<Rightarrow> int list \<Rightarrow> int list \<times> int list \<times> 's \<Rightarrow> 's + int list \<times> int list \<times> 's" where
  "propagate_shrink_loop E [] acc = Inr acc"
| "propagate_shrink_loop E (a # rest) (alpha_a_useful, neg_alpha_c_minus_c0, s) =
    (if flags_fixed E s a
     then propagate_shrink_loop E rest (alpha_a_useful, neg_alpha_c_minus_c0, s)
     else case propagate E (search_assume_decision E (- a) (backtrack E 0 s)) of
       (ok, s2) \<Rightarrow>
         if \<not> ok
         then (case propagate E (analyze E s2) of
                 (ok2, s4) \<Rightarrow>
                   if \<not> ok2 then Inl s4
                   else propagate_shrink_loop E rest (alpha_a_useful, neg_alpha_c_minus_c0, s4))
         else (case erase_falsified E s2 neg_alpha_c_minus_c0 of
                 (residual, keep_i) \<Rightarrow>
                   propagate_shrink_loop E rest
                     (if keep_i then alpha_a_useful @ [a] else alpha_a_useful, residual, s2)))"

text \<open>
  After the loop the function backtracks and ends without a \<^verbatim>\<open>return\<close> statement: it is
  declared \<^verbatim>\<open>bool\<close>, so the value the caller reads is not defined.  Like \<^verbatim>\<open>bcp_shrink\<close> it
  takes the vectors by value.
\<close>

definition propagate_shrink ::
  "'s collab \<Rightarrow> 's \<Rightarrow> int list \<Rightarrow> int list \<Rightarrow> int list \<Rightarrow> error + (bool \<times> 's)" where
  "propagate_shrink E s alpha_a alpha_a_useful neg_alpha_c_minus_c0 =
    (case propagate_shrink_loop E alpha_a (alpha_a_useful, neg_alpha_c_minus_c0, s) of
       Inl s' \<Rightarrow> Inr (False, s')
     | Inr (useful_copy, residual_copy, s') \<Rightarrow>
         (case backtrack E 0 s' of s'' \<Rightarrow> Inl UndefinedBehaviour))"

section \<open>Recording and adding a clause\<close>

text \<open>
  \<^verbatim>\<open>sort_vec_by_decision_level\<close>: \<^verbatim>\<open>std::sort\<close> by descending \<^verbatim>\<open>var (x).level\<close>.  The order
  among literals of one level is left open by \<^verbatim>\<open>std::sort\<close>; the model keeps their order.
\<close>

definition sort_vec_by_decision_level :: "'s collab \<Rightarrow> 's \<Rightarrow> int list \<Rightarrow> int list" where
  "sort_vec_by_decision_level E s v = sort_key (\<lambda>x. - var_level E s x) v"

text \<open>\<^verbatim>\<open>record_clause\<close>: one line to each stream.\<close>

definition record_clause :: "int \<Rightarrow> int list \<Rightarrow> int list \<Rightarrow> 's gstate \<Rightarrow> 's gstate" where
  "record_clause lit negated_conditional autarky g =
    g\<lparr>outFile := outFile g @ [lit # negated_conditional],
      outFile_pr := outFile_pr g @ [lit # negated_conditional @ lit # autarky]\<rparr>"

text \<open>
  \<^verbatim>\<open>add_clause\<close>.  With learning on, a clause of more than one literal goes to
  \<^verbatim>\<open>new_learned_weak_irredundant_global_clause\<close>, any other to
  \<^verbatim>\<open>assign_original_unit_gbc\<close> with \<^verbatim>\<open>clause[0]\<close>, which does not exist for an empty clause.
\<close>

definition add_clause ::
  "'s collab \<Rightarrow> global_opts \<Rightarrow> int list \<Rightarrow> int \<Rightarrow> int list \<Rightarrow> int list \<Rightarrow> 's gstate
     \<Rightarrow> error + 's gstate" where
  "add_clause E opts new_clause lit negated_conditional autarky g =
    (let autarky' = removeAll lit autarky;
         negated_conditional' = removeAll lit negated_conditional;
         clause = sort_vec_by_decision_level E (solver g) new_clause
     in if globallearn opts \<and> clause = [] then Inl UndefinedBehaviour
        else
          let g1 = (if globallearn opts
                    then (if length clause > 1
                          then g\<lparr>solver := new_learned_weak_irredundant_global_clause E clause
                                             lit negated_conditional' autarky' (solver g),
                                 learnt := learnt g @ [clause]\<rparr>
                          else g\<lparr>solver := assign_original_unit_gbc E (clause ! 0) autarky'
                                             (solver g),
                                 learnt := learnt g @ [clause]\<rparr>)
                    else g)
          in Inr (if globalrecord opts
                  then record_clause lit negated_conditional' autarky' g1 else g1))"

section \<open>The least conditional part\<close>

text \<open>
  \<^verbatim>\<open>times_touched\<close> is a \<^verbatim>\<open>std::map<int, int>\<close>, enumerated by ascending key: an
  association list kept sorted by key.  \<open>touch\<close> is the insert-or-increment of the scan.
\<close>

fun touch :: "int \<Rightarrow> (int \<times> int) list \<Rightarrow> (int \<times> int) list" where
  "touch lit [] = [(lit, 1)]"
| "touch lit ((k, n) # m) =
    (if lit = k then (k, n + 1) # m
     else if lit < k then (lit, 1) # (k, n) # m
     else (k, n) # touch lit m)"

text \<open>The first loop over a clause: is a literal true and its variable fixed?\<close>

definition skip_clause :: "'s collab \<Rightarrow> 's \<Rightarrow> Clause \<Rightarrow> bool" where
  "skip_clause E s c = list_ex (\<lambda>lit. val E s lit > 0 \<and> flags_fixed E s lit) (literals c)"

text \<open>The second loop over a clause, on (\<^verbatim>\<open>satisfies_clause\<close>, \<^verbatim>\<open>alpha_touches\<close>,
  \<^verbatim>\<open>times_touched\<close>).\<close>

fun scan_lits ::
  "'s collab \<Rightarrow> 's gstate \<Rightarrow> int list \<Rightarrow> bool \<times> int list \<times> (int \<times> int) list
     \<Rightarrow> bool \<times> int list \<times> (int \<times> int) list" where
  "scan_lits E g [] acc = acc"
| "scan_lits E g (lit # rest) (satisfies_clause, alpha_touches, times_touched) =
    (if val E (solver g) lit > 0
     then scan_lits E g rest (True, alpha_touches, touch lit times_touched)
     else if val E (solver g) lit < 0
     then (if flags_fixed E (solver g) lit
           then scan_lits E g rest (satisfies_clause, alpha_touches, times_touched)
           else if \<not> global_getbit E g lit
           then scan_lits E g rest (satisfies_clause, alpha_touches @ [lit], times_touched)
           else scan_lits E g rest (satisfies_clause, alpha_touches, times_touched))
     else scan_lits E g rest (satisfies_clause, alpha_touches, times_touched))"

text \<open>The loop over the clause database, on (\<^verbatim>\<open>neg_alpha_c\<close>, \<^verbatim>\<open>times_touched\<close>, state).\<close>

fun scan_clauses ::
  "'s collab \<Rightarrow> Clause list \<Rightarrow> int list \<times> (int \<times> int) list \<times> 's gstate
     \<Rightarrow> int list \<times> (int \<times> int) list \<times> 's gstate" where
  "scan_clauses E [] acc = acc"
| "scan_clauses E (c # rest) (neg_alpha_c, times_touched, g) =
    (if redundant c \<and> \<not> proof_on E (solver g)
     then scan_clauses E rest (neg_alpha_c, times_touched, g)
     else if garbage c then scan_clauses E rest (neg_alpha_c, times_touched, g)
     else if skip_clause E (solver g) c
     then scan_clauses E rest (neg_alpha_c, times_touched, g)
     else case scan_lits E g (literals c) (False, [], times_touched) of
       (satisfies_clause, alpha_touches, times_touched') \<Rightarrow>
         if \<not> satisfies_clause
         then scan_clauses E rest
                (neg_alpha_c @ alpha_touches, times_touched',
                 fold (global_setbit E) alpha_touches g)
         else scan_clauses E rest (neg_alpha_c, times_touched', g))"

text \<open>The loop over \<^verbatim>\<open>times_touched\<close>, on (\<^verbatim>\<open>clauses_to_add\<close>, \<^verbatim>\<open>alpha_a\<close>).\<close>

fun collect_keys ::
  "'s collab \<Rightarrow> 's gstate \<Rightarrow> int list \<Rightarrow> (int \<times> int) list \<Rightarrow> int list list \<times> int list
     \<Rightarrow> int list list \<times> int list" where
  "collect_keys E g neg_alpha_c [] acc = acc"
| "collect_keys E g neg_alpha_c ((key, n) # rest) (clauses_to_add, alpha_a) =
    (if \<not> global_getbit E g key
     then collect_keys E g neg_alpha_c rest
            (if \<not> is_decision E (solver g) key
             then clauses_to_add @ [neg_alpha_c @ [key]] else clauses_to_add,
             alpha_a @ [key])
     else collect_keys E g neg_alpha_c rest (clauses_to_add, alpha_a))"

text \<open>
  Lines 2541 to 2558: the choice among the four strategies.  The caller's
  \<^verbatim>\<open>alpha_a_useful\<close> is empty and its \<^verbatim>\<open>neg_alpha_c_minus_c0\<close> a copy of \<^verbatim>\<open>neg_alpha_c\<close> before
  the choice; the two greedy functions return a new pair, the two shrink functions
  leave the caller's pair as it is.  \<open>Inr (Inl s)\<close> is the \<^verbatim>\<open>return false\<close> after
  \<^verbatim>\<open>propagate_shrink\<close>.
\<close>

definition shrink_step ::
  "'s collab \<Rightarrow> global_opts \<Rightarrow> int list \<Rightarrow> 's \<Rightarrow> int list \<Rightarrow> int list
     \<Rightarrow> error + ('s + (int list \<times> int list) \<times> 's)" where
  "shrink_step E opts gtry s alpha_a neg_alpha_c =
    (let alpha_a_useful = []; neg_alpha_c_minus_c0 = neg_alpha_c in
     if globalalphaagreedy opts \<and> \<not> globalchessheur opts
     then (case greedy_sort_alpha_a E gtry s alpha_a neg_alpha_c of
             Inl e \<Rightarrow> Inl e | Inr r \<Rightarrow> Inr (Inr r))
     else if globalalphaagreedy opts
     then (case greedy_sort_alpha_a_special E gtry s alpha_a neg_alpha_c of
             Inl e \<Rightarrow> Inl e | Inr r \<Rightarrow> Inr (Inr r))
     else if globalbcp opts
     then (case bcp_shrink E s alpha_a alpha_a_useful neg_alpha_c_minus_c0 of
             () \<Rightarrow> Inr (Inr ((alpha_a_useful, neg_alpha_c_minus_c0), s)))
     else (case propagate_shrink E s alpha_a alpha_a_useful neg_alpha_c_minus_c0 of
             Inl e \<Rightarrow> Inl e
           | Inr (end_early, s') \<Rightarrow>
               if \<not> end_early then Inr (Inl s')
               else Inr (Inr ((alpha_a_useful, neg_alpha_c_minus_c0), s'))))"

text \<open>
  \<^verbatim>\<open>!(opts.globalfiltertriv && check_if_clause_trivial (new_clause))\<close>: the check runs
  only when the filter is on.
\<close>

definition passes_filter ::
  "'s collab \<Rightarrow> global_opts \<Rightarrow> nat \<Rightarrow> int list \<Rightarrow> 's \<Rightarrow> error + (bool \<times> 's)" where
  "passes_filter E opts fuel new_clause s =
    (if globalfiltertriv opts
     then (case check_if_clause_trivial E opts fuel new_clause s of
             Inl e \<Rightarrow> Inl e
           | Inr (trivial, s') \<Rightarrow> Inr (\<not> trivial, s'))
     else Inr (True, s))"

text \<open>
  The loop that emits the raw candidates, on (\<^verbatim>\<open>adding_a_clause\<close>, state); the list is
  the first \<^verbatim>\<open>min (opts.globalmaxclause, clauses_to_add.size ())\<close> candidates.
\<close>

fun emit_raw ::
  "'s collab \<Rightarrow> global_opts \<Rightarrow> nat \<Rightarrow> int \<Rightarrow> int list \<Rightarrow> int list list
     \<Rightarrow> bool \<times> 's gstate \<Rightarrow> error + (bool \<times> 's gstate)" where
  "emit_raw E opts fuel original_time alpha_a [] acc = Inr acc"
| "emit_raw E opts fuel original_time alpha_a (new_clause # rest) (adding_a_clause, g) =
    (if time_now E (solver g) - original_time > globaltimelim opts then Inr (False, g)
     else case passes_filter E opts fuel new_clause (solver g) of
       Inl e \<Rightarrow> Inl e
     | Inr (pass, s') \<Rightarrow>
         if pass
         then (case add_clause E opts new_clause (last new_clause) new_clause alpha_a
                      (g\<lparr>solver := s'\<rparr>) of
                 Inl e \<Rightarrow> Inl e
               | Inr g' \<Rightarrow> emit_raw E opts fuel original_time alpha_a rest (True, g'))
         else emit_raw E opts fuel original_time alpha_a rest (True, g\<lparr>solver := s'\<rparr>))"

text \<open>Lines 2561 to 2586: the assembly of the clause, or of the raw candidates.\<close>

definition emit_step ::
  "'s collab \<Rightarrow> global_opts \<Rightarrow> nat \<Rightarrow> int \<Rightarrow> int list \<Rightarrow> int list list \<Rightarrow> int list
     \<Rightarrow> int list \<Rightarrow> 's gstate \<Rightarrow> error + (bool \<times> 's gstate)" where
  "emit_step E opts fuel original_time alpha_a clauses_to_add alpha_a_useful
      neg_alpha_c_minus_c0 g =
    (if alpha_a_useful = [] \<or> globalnoshrink opts
     then emit_raw E opts fuel original_time alpha_a
            (take (nat (min (globalmaxclause opts) (int (length clauses_to_add))))
               clauses_to_add)
            (False, g)
     else let new_clause = neg_alpha_c_minus_c0 @ alpha_a_useful in
       case passes_filter E opts fuel new_clause (solver g) of
         Inl e \<Rightarrow> Inl e
       | Inr (pass, s') \<Rightarrow>
           if pass
           then (case add_clause E opts new_clause (last alpha_a_useful) new_clause alpha_a
                        (g\<lparr>solver := s'\<rparr>) of
                   Inl e \<Rightarrow> Inl e
                 | Inr g' \<Rightarrow> Inr (True, g'))
           else Inr (True, g\<lparr>solver := s'\<rparr>))"

text \<open>
  Lines 2426 to 2525: the scan of the database, the loop over \<^verbatim>\<open>times_touched\<close> and the
  loop that unsets the bits again.  The result is (\<^verbatim>\<open>neg_alpha_c\<close>, \<^verbatim>\<open>clauses_to_add\<close>,
  \<^verbatim>\<open>alpha_a\<close>, state).  No path leaves the function within these lines.
\<close>

definition conditional_part ::
  "'s collab \<Rightarrow> 's gstate \<Rightarrow> int list \<times> int list list \<times> int list \<times> 's gstate" where
  "conditional_part E g =
    (case scan_clauses E (clauses E (solver g)) ([], [], g) of
       (neg_alpha_c, times_touched, g1) \<Rightarrow>
         (case collect_keys E g1 neg_alpha_c times_touched ([], []) of
            (clauses_to_add, alpha_a) \<Rightarrow>
              (neg_alpha_c, clauses_to_add, alpha_a, fold (global_unsetbit E) neg_alpha_c g1)))"

text \<open>
  \<^verbatim>\<open>least_conditional_part\<close>.  The result is the returned flag with the state at the
  return.
\<close>

definition least_conditional_part ::
  "'s collab \<Rightarrow> global_opts \<Rightarrow> nat \<Rightarrow> int \<Rightarrow> 's gstate \<Rightarrow> error + (bool \<times> 's gstate)" where
  "least_conditional_part E opts fuel original_time g =
    (case conditional_part E g of
       (neg_alpha_c, clauses_to_add, alpha_a0, g2) \<Rightarrow>
         (case custom_sort_alpha_a E opts alpha_a0 (solver g2) of
            Inl e \<Rightarrow> Inl e
          | Inr (alpha_a, s3) \<Rightarrow>
              (case shrink_step E opts (global_try g2) s3 alpha_a neg_alpha_c of
                 Inl e \<Rightarrow> Inl e
               | Inr (Inl s4) \<Rightarrow> Inr (False, g2\<lparr>solver := s4\<rparr>)
               | Inr (Inr ((alpha_a_useful, neg_alpha_c_minus_c0), s4)) \<Rightarrow>
                   emit_step E opts fuel original_time alpha_a clauses_to_add
                     alpha_a_useful neg_alpha_c_minus_c0 (g2\<lparr>solver := s4\<rparr>))))"

section \<open>A small solver to run the code on\<close>

text \<open>
  Modelled from the spec: the collaborators (assignment and trail, \<^verbatim>\<open>propagate\<close>,
  \<^verbatim>\<open>analyze\<close>, \<^verbatim>\<open>backtrack\<close>, \<^verbatim>\<open>search_assume_decision\<close>, the flag and level tables, watch
  lists, the learned-clause constructors) are defined outside this file.  The following
  solver follows the contracts of the spec's section 6 in the simplest way.  It serves
  to run the functions above on concrete formulas; the general theorems do not depend
  on it.
  \<^item> The trail lists (literal, level, decision flag) in assignment order.
  \<^item> \<open>mini_propagate\<close> assigns the only unassigned literal of a clause without a true
    literal until no such clause is left, and reports a clause whose literals are all
    false; each call advances the clock by one.
  \<^item> \<open>mini_analyze\<close> sets \<^verbatim>\<open>unsat\<close> at level 0; above it learns the clause of the negated
    decisions and backtracks by one level.
  \<^item> A variable counts as fixed when it is assigned at level 0.
\<close>

record mini =
  m_clauses :: "Clause list"
  m_trail :: "(int \<times> nat \<times> bool) list"
  m_level :: nat
  m_unsat :: bool
  m_clock :: int
  m_max_var :: int
  m_bits :: "(int \<times> nat) list"

definition mini_val :: "mini \<Rightarrow> int \<Rightarrow> int" where
  "mini_val s lit =
    (if list_ex (\<lambda>(l, lv, d). l = lit) (m_trail s) then 1
     else if list_ex (\<lambda>(l, lv, d). l = - lit) (m_trail s) then -1
     else 0)"

definition mini_fixed :: "mini \<Rightarrow> int \<Rightarrow> bool" where
  "mini_fixed s lit = list_ex (\<lambda>(l, lv, d). \<bar>l\<bar> = \<bar>lit\<bar> \<and> lv = 0) (m_trail s)"

definition mini_is_decision :: "mini \<Rightarrow> int \<Rightarrow> bool" where
  "mini_is_decision s lit = list_ex (\<lambda>(l, lv, d). \<bar>l\<bar> = \<bar>lit\<bar> \<and> d) (m_trail s)"

definition mini_var_level :: "mini \<Rightarrow> int \<Rightarrow> int" where
  "mini_var_level s lit =
    (case filter (\<lambda>(l, lv, d). \<bar>l\<bar> = \<bar>lit\<bar>) (m_trail s) of
       [] \<Rightarrow> 0
     | (l, lv, d) # rest \<Rightarrow> int lv)"

definition mini_backtrack :: "nat \<Rightarrow> mini \<Rightarrow> mini" where
  "mini_backtrack n s =
    s\<lparr>m_trail := filter (\<lambda>(l, lv, d). lv \<le> n) (m_trail s), m_level := min n (m_level s)\<rparr>"

definition mini_assume :: "int \<Rightarrow> mini \<Rightarrow> mini" where
  "mini_assume lit s =
    s\<lparr>m_level := Suc (m_level s), m_trail := m_trail s @ [(lit, Suc (m_level s), True)]\<rparr>"

definition mini_conflicting :: "mini \<Rightarrow> Clause \<Rightarrow> bool" where
  "mini_conflicting s c = (\<not> garbage c \<and> list_all (\<lambda>l. mini_val s l < 0) (literals c))"

definition mini_unit :: "mini \<Rightarrow> Clause \<Rightarrow> int option" where
  "mini_unit s c =
    (if garbage c \<or> list_ex (\<lambda>l. mini_val s l > 0) (literals c) then None
     else case filter (\<lambda>l. mini_val s l = 0) (remdups (literals c)) of
       [l] \<Rightarrow> Some l
     | _ \<Rightarrow> None)"

fun mini_propagate_n :: "nat \<Rightarrow> mini \<Rightarrow> bool \<times> mini" where
  "mini_propagate_n 0 s = (\<not> list_ex (mini_conflicting s) (m_clauses s), s)"
| "mini_propagate_n (Suc n) s =
    (if list_ex (mini_conflicting s) (m_clauses s) then (False, s)
     else case List.map_filter (mini_unit s) (m_clauses s) of
       [] \<Rightarrow> (True, s)
     | l # rest \<Rightarrow> mini_propagate_n n (s\<lparr>m_trail := m_trail s @ [(l, m_level s, False)]\<rparr>))"

definition mini_propagate :: "mini \<Rightarrow> bool \<times> mini" where
  "mini_propagate s =
    (case mini_propagate_n (length (concat (map literals (m_clauses s)))) s of
       (ok, s') \<Rightarrow> (ok, s'\<lparr>m_clock := m_clock s' + 1\<rparr>))"

definition mini_analyze :: "mini \<Rightarrow> mini" where
  "mini_analyze s =
    (if m_level s = 0 then s\<lparr>m_unsat := True\<rparr>
     else (mini_backtrack (m_level s - 1) s)
            \<lparr>m_clauses := m_clauses s @
               [\<lparr>literals = map (\<lambda>(l, lv, d). - l) (filter (\<lambda>(l, lv, d). d) (m_trail s)),
                 redundant = True, garbage = False\<rparr>]\<rparr>)"

definition mini_watches :: "mini \<Rightarrow> int \<Rightarrow> Clause list" where
  "mini_watches s lit = filter (\<lambda>c. lit \<in> set (take 2 (literals c))) (m_clauses s)"

definition mini_learn_clause :: "int list \<Rightarrow> int \<Rightarrow> int list \<Rightarrow> int list \<Rightarrow> mini \<Rightarrow> mini" where
  "mini_learn_clause clause lit negated_conditional autarky s =
    s\<lparr>m_clauses := m_clauses s @ [\<lparr>literals = clause, redundant = True, garbage = False\<rparr>]\<rparr>"

definition mini_learn_unit :: "int \<Rightarrow> int list \<Rightarrow> mini \<Rightarrow> mini" where
  "mini_learn_unit lit autarky s =
    s\<lparr>m_clauses := m_clauses s @ [\<lparr>literals = [lit], redundant = True, garbage = False\<rparr>],
      m_trail := (lit, 0, False) # m_trail s\<rparr>"

definition mini_collab :: "bool \<Rightarrow> mini collab" where
  "mini_collab nd =
    \<lparr>ndebug = nd, propagate = mini_propagate, analyze = mini_analyze,
     backtrack = mini_backtrack, search_assume_decision = mini_assume, val = mini_val,
     flags_fixed = mini_fixed, is_decision = mini_is_decision, var_level = mini_var_level,
     unsat = m_unsat, level = m_level, clauses = m_clauses, watches = mini_watches,
     proof_on = (\<lambda>s. False), max_var = m_max_var, time_now = m_clock,
     new_learned_weak_irredundant_global_clause = mini_learn_clause,
     assign_original_unit_gbc = mini_learn_unit, shuffle = rev,
     global_index = (\<lambda>lit. nat (2 * \<bar>lit\<bar> + (if lit < 0 then 1 else 0))),
     active = (\<lambda>s lit. \<not> mini_fixed s lit),
     getbit = (\<lambda>s lit b. (lit, b) \<in> set (m_bits s)),
     setbit = (\<lambda>lit b s. s\<lparr>m_bits := (lit, b) # m_bits s\<rparr>),
     unsetbit = (\<lambda>lit b s. s\<lparr>m_bits := removeAll (lit, b) (m_bits s)\<rparr>)\<rparr>"

text \<open>Clauses, formulas and states to run on.\<close>

definition cl :: "int list \<Rightarrow> Clause" where
  "cl ls = \<lparr>literals = ls, redundant = False, garbage = False\<rparr>"

definition mini_init :: "int \<Rightarrow> int list list \<Rightarrow> mini" where
  "mini_init mv f =
    \<lparr>m_clauses = map cl f, m_trail = [], m_level = 0, m_unsat = False, m_clock = 0,
     m_max_var = mv, m_bits = []\<rparr>"

definition ginit :: "'s \<Rightarrow> 's gstate" where
  "ginit s = \<lparr>solver = s, globalmarks = {}, global_try = [], outFile = [], outFile_pr = [],
              learnt = []\<rparr>"

text \<open>Binary-clause shrink, no filter, learning and recording on.\<close>

definition opts_bcp :: global_opts where
  "opts_bcp =
    \<lparr>globalalphaasort = False, globalalphaarandom = False, globalalphaagreedy = False,
     globalchessheur = False, globalbcp = True, globalnoshrink = False,
     globalfiltertriv = False, globallearn = True, globalrecord = True,
     globalmaxclause = 1, globalmaxlen = 10, globaltimelim = 1000, globaltouch = True,
     globalisort = False, globalorderi = True, globalbothpol = False\<rparr>"

section \<open>The two drivers of global preprocessing\<close>

text \<open>
  How an iteration of a loop ends: it goes on with the next one (also after
  \<^verbatim>\<open>continue\<close>), it leaves the loop (\<^verbatim>\<open>break\<close>), or it returns from the function with
  a status.
\<close>

datatype 'a flow = Next 'a | Break 'a | Return int 'a

text \<open>\<^verbatim>\<open>while (!propagate ()) analyze ();\<close> with fuel, as for \<open>conflict_loop\<close>.\<close>

fun propagate_loop :: "'s collab \<Rightarrow> nat \<Rightarrow> 's \<Rightarrow> error + 's" where
  "propagate_loop E 0 s = Inl OutOfFuel"
| "propagate_loop E (Suc n) s =
    (case propagate E s of
       (ok, s') \<Rightarrow> if ok then Inr s' else propagate_loop E n (analyze E s'))"

text \<open>
  \<^verbatim>\<open>if (!propagate ()) { analyze (); while (!unsat && !propagate ()) analyze (); }\<close>,
  the pattern after most assumptions: the flag tells whether the first propagation
  went through.
\<close>

definition propagate_or_analyze :: "'s collab \<Rightarrow> nat \<Rightarrow> 's \<Rightarrow> error + (bool \<times> 's)" where
  "propagate_or_analyze E fuel s =
    (case propagate E s of
       (ok, s') \<Rightarrow>
         if ok then Inr (True, s')
         else case conflict_loop E fuel (analyze E s') of
           Inl e \<Rightarrow> Inl e
         | Inr s'' \<Rightarrow> Inr (False, s''))"

text \<open>\<^verbatim>\<open>get_touched_literals\<close>: the loop over one clause, then over the database.\<close>

fun touched_lits ::
  "'s collab \<Rightarrow> 's \<Rightarrow> int list \<Rightarrow> bool \<times> bool \<times> int list \<Rightarrow> bool \<times> bool \<times> int list" where
  "touched_lits E s [] acc = acc"
| "touched_lits E s (l # rest) (clause_touched, clause_satisfied, variables_to_consider) =
    (if val E s l > 0 then (clause_touched, True, variables_to_consider)
     else if val E s l < 0 then touched_lits E s rest (True, clause_satisfied, variables_to_consider)
     else if \<not> getbit E s l 1 \<and> \<not> flags_fixed E s l
     then touched_lits E s rest (clause_touched, clause_satisfied, variables_to_consider @ [l])
     else touched_lits E s rest (clause_touched, clause_satisfied, variables_to_consider))"

fun touched_clauses :: "'s collab \<Rightarrow> Clause list \<Rightarrow> int list \<times> 's \<Rightarrow> int list \<times> 's" where
  "touched_clauses E [] acc = acc"
| "touched_clauses E (c # rest) (touched_literals, s) =
    (case touched_lits E s (literals c) (False, False, []) of
       (clause_touched, clause_satisfied, variables_to_consider) \<Rightarrow>
         if clause_touched \<and> \<not> clause_satisfied
         then touched_clauses E rest
                (touched_literals @ variables_to_consider,
                 fold (\<lambda>l. setbit E l 1) variables_to_consider s)
         else touched_clauses E rest (touched_literals, s))"

definition get_touched_literals :: "'s collab \<Rightarrow> global_opts \<Rightarrow> 's \<Rightarrow> int list \<times> 's" where
  "get_touched_literals E opts s =
    (if \<not> globaltouch opts then ([1 .. max_var E s], s)
     else case touched_clauses E (clauses E s) ([], s) of
       (touched_literals, s') \<Rightarrow>
         (touched_literals, fold (\<lambda>l. unsetbit E l 1) touched_literals s'))"

text \<open>
  \<^verbatim>\<open>get_sorted_literals\<close>: the active variables with the number of their occurrences in
  clauses that are not garbage, by descending count (\<^verbatim>\<open>std::sort\<close>; the model keeps the
  order among equal counts).
\<close>

fun bump_count :: "int \<Rightarrow> (int \<times> int) list \<Rightarrow> (int \<times> int) list" where
  "bump_count v [] = []"
| "bump_count v ((x, n) # rest) =
    (if x = v then (x, n + 1) # rest else (x, n) # bump_count v rest)"

definition get_sorted_literals :: "'s collab \<Rightarrow> 's \<Rightarrow> int list" where
  "get_sorted_literals E s =
    (let lit_counts0 = map (\<lambda>i. (i, 0)) (filter (active E s) [1 .. max_var E s]);
         occurrences = concat (map literals (filter (\<lambda>c. \<not> garbage c) (clauses E s)));
         lit_counts = fold (\<lambda>lit m. if active E s \<bar>lit\<bar> then bump_count \<bar>lit\<bar> m else m)
                        occurrences lit_counts0
     in map fst (sort_key (\<lambda>p. - snd p) lit_counts))"

text \<open>
  The start of both drivers: the mark bitset is resized and cleared, the two output
  files are opened (and so emptied); a file that cannot be opened goes to the solver's
  fatal-error report.  \<open>can_open\<close> tells whether both files open.
\<close>

definition open_outputs :: "bool \<Rightarrow> 's gstate \<Rightarrow> error + 's gstate" where
  "open_outputs can_open g =
    (if can_open then Inr (g\<lparr>globalmarks := {}, outFile := [], outFile_pr := []\<rparr>)
     else Inl FatalError)"

subsection \<open>The fixed-schedule driver \<^verbatim>\<open>global_preprocess_chess\<close>\<close>

text \<open>The hard-coded table \<^verbatim>\<open>asses\<close> of the source, all 405 rows.\<close>

definition asses :: "(int list \<times> int list) list" where
  "asses =
    [([1, 10], [- 92, - 91]),
     ([2, 11], [- 93, - 92]),
     ([3, 12], [- 94, - 93]),
     ([4, 13], [- 95, - 94]),
     ([5, 14], [- 96, - 95]),
     ([6, 15], [- 96, - 97]),
     ([16, 7], [- 98, - 97]),
     ([8, 17], [- 99, - 98]),
     ([9, 18], [- 100, - 99]),
     ([10, 19], [- 102, - 101]),
     ([11, 20], [- 103, - 102]),
     ([12, 21], [- 104, - 103]),
     ([13, 22], [- 104, - 105]),
     ([14, 23], [- 106, - 105]),
     ([24, 15], [- 107, - 106]),
     ([16, 25], [- 108, - 107]),
     ([17, 26], [- 109, - 108]),
     ([18, 27], [- 110, - 109]),
     ([19, 28], [- 112, - 111]),
     ([20, 29], [- 112, - 113]),
     ([21, 30], [- 114, - 113]),
     ([22, 31], [- 115, - 114]),
     ([32, 23], [- 116, - 115]),
     ([24, 33], [- 117, - 116]),
     ([25, 34], [- 118, - 117]),
     ([26, 35], [- 119, - 118]),
     ([27, 36], [- 120, - 119]),
     ([28, 37], [- 122, - 121]),
     ([29, 38], [- 123, - 122]),
     ([30, 39], [- 124, - 123]),
     ([40, 31], [- 125, - 124]),
     ([32, 41], [- 126, - 125]),
     ([33, 42], [- 127, - 126]),
     ([34, 43], [- 128, - 127]),
     ([35, 44], [- 128, - 129]),
     ([36, 45], [- 130, - 129]),
     ([37, 46], [- 132, - 131]),
     ([38, 47], [- 133, - 132]),
     ([48, 39], [- 134, - 133]),
     ([40, 49], [- 135, - 134]),
     ([41, 50], [- 136, - 135]),
     ([42, 51], [- 136, - 137]),
     ([43, 52], [- 138, - 137]),
     ([44, 53], [- 139, - 138]),
     ([45, 54], [- 140, - 139]),
     ([46, 55], [- 142, - 141]),
     ([56, 47], [- 143, - 142]),
     ([48, 57], [- 144, - 143]),
     ([49, 58], [- 144, - 145]),
     ([50, 59], [- 146, - 145]),
     ([51, 60], [- 147, - 146]),
     ([52, 61], [- 148, - 147]),
     ([53, 62], [- 149, - 148]),
     ([54, 63], [- 150, - 149]),
     ([64, 55], [- 152, - 151]),
     ([56, 65], [- 152, - 153]),
     ([57, 66], [- 154, - 153]),
     ([58, 67], [- 155, - 154]),
     ([59, 68], [- 156, - 155]),
     ([60, 69], [- 157, - 156]),
     ([61, 70], [- 158, - 157]),
     ([62, 71], [- 159, - 158]),
     ([72, 63], [- 160, - 159]),
     ([64, 73], [- 162, - 161]),
     ([65, 74], [- 163, - 162]),
     ([66, 75], [- 164, - 163]),
     ([67, 76], [- 165, - 164]),
     ([68, 77], [- 166, - 165]),
     ([69, 78], [- 167, - 166]),
     ([70, 79], [- 168, - 167]),
     ([80, 71], [- 168, - 169]),
     ([72, 81], [- 170, - 169]),
     ([73, 82], [- 172, - 171]),
     ([74, 83], [- 173, - 172]),
     ([75, 84], [- 174, - 173]),
     ([76, 85], [- 175, - 174]),
     ([77, 86], [- 176, - 175]),
     ([78, 87], [- 176, - 177]),
     ([88, 79], [- 178, - 177]),
     ([80, 89], [- 179, - 178]),
     ([81, 90], [- 180, - 179]),
     ([8, 17, 100], [- 18, - 98, - 9]),
     ([17, 26, 110], [- 108, - 27, - 18]),
     ([120, 26, 35], [- 118, - 36, - 27]),
     ([130, 35, 44], [- 128, - 45, - 36]),
     ([140, 44, 53], [- 54, - 45, - 138]),
     ([150, 53, 62], [- 63, - 54, - 148]),
     ([160, 62, 71], [- 72, - 63, - 158]),
     ([80, 170, 71], [- 168, - 72, - 81]),
     ([80, 89, 180], [- 90, - 178, - 81]),
     ([16, 9, 18, 7], [- 8, - 17, - 100, - 97]),
     ([16, 99, 7], [- 8, - 17, - 97]),
     ([16, 25, 18, 27], [- 110, - 107, - 26, - 17]),
     ([16, 25, 109], [- 107, - 26, - 17]),
     ([25, 34, 27, 36], [- 120, - 117, - 35, - 26]),
     ([25, 34, 119], [- 117, - 35, - 26]),
     ([34, 43, 36, 45], [- 127, - 44, - 35, - 130]),
     ([129, 34, 43], [- 127, - 44, - 35]),
     ([43, 52, 45, 54], [- 140, - 53, - 44, - 137]),
     ([43, 52, 139], [- 53, - 44, - 137]),
     ([52, 61, 54, 63], [- 62, - 53, - 147, - 150]),
     ([52, 61, 149], [- 62, - 53, - 147]),
     ([72, 61, 70, 63], [- 160, - 71, - 62, - 157]),
     ([61, 70, 159], [- 71, - 62, - 157]),
     ([72, 81, 70, 79], [- 80, - 167, - 71, - 170]),
     ([169, 70, 79], [- 80, - 167, - 71]),
     ([88, 81, 90, 79], [- 80, - 89, - 180, - 177]),
     ([88, 179, 79], [- 80, - 89, - 177]),
     ([100, 6, 8, 15, 17], [- 96, - 18, - 16, - 9, - 7]),
     ([8, 17, 6, 15], [- 96, - 7, - 99, - 16]),
     ([98, 6, 15], [- 96, - 7, - 16]),
     ([110, 15, 17, 24, 26], [- 27, - 25, - 18, - 16, - 106]),
     ([24, 17, 26, 15], [- 16, - 109, - 106, - 25]),
     ([24, 108, 15], [- 16, - 106, - 25]),
     ([33, 35, 24, 26, 120], [- 27, - 25, - 116, - 36, - 34]),
     ([24, 33, 26, 35], [- 119, - 116, - 34, - 25]),
     ([24, 33, 118], [- 116, - 34, - 25]),
     ([33, 130, 35, 42, 44], [- 126, - 45, - 43, - 36, - 34]),
     ([33, 42, 35, 44], [- 126, - 43, - 34, - 129]),
     ([128, 33, 42], [- 126, - 43, - 34]),
     ([42, 140, 44, 51, 53], [- 54, - 52, - 45, - 43, - 136]),
     ([42, 51, 44, 53], [- 136, - 139, - 52, - 43]),
     ([42, 51, 138], [- 136, - 52, - 43]),
     ([51, 53, 150, 60, 62], [- 63, - 61, - 54, - 52, - 146]),
     ([51, 60, 53, 62], [- 61, - 52, - 146, - 149]),
     ([148, 51, 60], [- 61, - 52, - 146]),
     ([160, 69, 71, 60, 62], [- 63, - 61, - 156, - 72, - 70]),
     ([60, 69, 62, 71], [- 159, - 70, - 61, - 156]),
     ([60, 69, 158], [- 70, - 61, - 156]),
     ([69, 71, 170, 78, 80], [- 81, - 79, - 72, - 70, - 166]),
     ([80, 69, 78, 71], [- 70, - 79, - 166, - 169]),
     ([168, 69, 78], [- 70, - 79, - 166]),
     ([78, 80, 180, 87, 89], [- 90, - 88, - 81, - 176, - 79]),
     ([80, 89, 78, 87], [- 176, - 79, - 179, - 88]),
     ([178, 78, 87], [- 176, - 79, - 88]),
     ([5, 7, 9, 14, 16, 18], [- 95, - 17, - 15, - 8, - 6, - 100]),
     ([99, 5, 7, 14, 16], [- 95, - 17, - 15, - 8, - 6]),
     ([16, 5, 14, 7], [- 95, - 6, - 15, - 98]),
     ([97, 5, 14], [- 95, - 6, - 15]),
     ([14, 16, 18, 23, 25, 27], [- 26, - 24, - 17, - 15, - 110, - 105]),
     ([109, 14, 16, 23, 25], [- 26, - 24, - 17, - 15, - 105]),
     ([16, 25, 14, 23], [- 24, - 15, - 108, - 105]),
     ([107, 14, 23], [- 24, - 15, - 105]),
     ([32, 34, 36, 23, 25, 27], [- 26, - 24, - 120, - 115, - 35, - 33]),
     ([32, 34, 23, 119, 25], [- 26, - 24, - 115, - 35, - 33]),
     ([32, 25, 34, 23], [- 24, - 118, - 115, - 33]),
     ([32, 117, 23], [- 24, - 115, - 33]),
     ([32, 34, 36, 41, 43, 45], [- 125, - 44, - 42, - 35, - 130, - 33]),
     ([32, 129, 34, 41, 43], [- 125, - 44, - 42, - 35, - 33]),
     ([32, 41, 34, 43], [- 128, - 125, - 42, - 33]),
     ([32, 41, 127], [- 125, - 42, - 33]),
     ([41, 43, 45, 50, 52, 54], [- 53, - 51, - 44, - 140, - 42, - 135]),
     ([41, 43, 139, 50, 52], [- 53, - 51, - 44, - 42, - 135]),
     ([41, 50, 43, 52], [- 135, - 138, - 51, - 42]),
     ([41, 50, 137], [- 135, - 51, - 42]),
     ([50, 52, 54, 59, 61, 63], [- 62, - 60, - 150, - 53, - 51, - 145]),
     ([50, 52, 149, 59, 61], [- 62, - 60, - 53, - 51, - 145]),
     ([50, 59, 52, 61], [- 148, - 60, - 51, - 145]),
     ([50, 59, 147], [- 60, - 51, - 145]),
     ([68, 70, 72, 59, 61, 63], [- 160, - 62, - 60, - 155, - 71, - 69]),
     ([68, 70, 59, 61, 159], [- 62, - 60, - 155, - 71, - 69]),
     ([59, 68, 61, 70], [- 158, - 69, - 60, - 155]),
     ([59, 68, 157], [- 69, - 60, - 155]),
     ([68, 70, 72, 77, 79, 81], [- 69, - 80, - 78, - 170, - 71, - 165]),
     ([68, 70, 169, 77, 79], [- 69, - 80, - 78, - 71, - 165]),
     ([68, 77, 70, 79], [- 168, - 78, - 165, - 69]),
     ([68, 77, 167], [- 78, - 165, - 69]),
     ([77, 79, 81, 86, 88, 90], [- 89, - 87, - 180, - 80, - 175, - 78]),
     ([77, 79, 179, 86, 88], [- 89, - 87, - 80, - 175, - 78]),
     ([88, 77, 86, 79], [- 175, - 78, - 87, - 178]),
     ([177, 77, 86], [- 175, - 78, - 87]),
     ([4, 100, 6, 8, 13, 15, 17], [- 94, - 18, - 16, - 14, - 9, - 7, - 5]),
     ([4, 6, 8, 13, 15, 17], [- 94, - 16, - 14, - 7, - 5, - 99]),
     ([98, 4, 6, 13, 15], [- 94, - 16, - 14, - 7, - 5]),
     ([4, 13, 6, 15], [- 14, - 94, - 5, - 97]),
     ([96, 4, 13], [- 14, - 94, - 5]),
     ([13, 110, 15, 17, 22, 24, 26], [- 27, - 25, - 23, - 18, - 16, - 14, - 104]),
     ([13, 15, 17, 22, 24, 26], [- 25, - 23, - 16, - 14, - 109, - 104]),
     ([108, 13, 15, 22, 24], [- 25, - 23, - 16, - 14, - 104]),
     ([24, 13, 22, 15], [- 104, - 23, - 14, - 107]),
     ([106, 13, 22], [- 104, - 23, - 14]),
     ([33, 35, 22, 24, 26, 120, 31], [- 32, - 27, - 25, - 23, - 114, - 36, - 34]),
     ([33, 35, 22, 24, 26, 31], [- 32, - 25, - 23, - 119, - 114, - 34]),
     ([33, 118, 22, 24, 31], [- 32, - 25, - 23, - 114, - 34]),
     ([24, 33, 22, 31], [- 32, - 23, - 117, - 114]),
     ([116, 22, 31], [- 32, - 23, - 114]),
     ([33, 130, 35, 40, 42, 44, 31], [- 32, - 124, - 45, - 43, - 41, - 36, - 34]),
     ([33, 35, 40, 42, 44, 31], [- 32, - 124, - 43, - 41, - 34, - 129]),
     ([128, 33, 40, 42, 31], [- 32, - 124, - 43, - 41, - 34]),
     ([40, 33, 42, 31], [- 32, - 127, - 124, - 41]),
     ([40, 126, 31], [- 32, - 124, - 41]),
     ([40, 42, 44, 140, 49, 51, 53], [- 54, - 52, - 50, - 45, - 43, - 41, - 134]),
     ([40, 42, 44, 49, 51, 53], [- 52, - 50, - 43, - 139, - 41, - 134]),
     ([40, 42, 138, 49, 51], [- 52, - 50, - 43, - 41, - 134]),
     ([40, 49, 42, 51], [- 134, - 137, - 50, - 41]),
     ([40, 49, 136], [- 134, - 50, - 41]),
     ([49, 51, 53, 150, 58, 60, 62], [- 63, - 61, - 59, - 54, - 52, - 50, - 144]),
     ([49, 51, 53, 58, 60, 62], [- 61, - 59, - 149, - 52, - 50, - 144]),
     ([49, 51, 148, 58, 60], [- 61, - 59, - 52, - 50, - 144]),
     ([49, 58, 51, 60], [- 144, - 147, - 59, - 50]),
     ([49, 58, 146], [- 144, - 59, - 50]),
     ([160, 67, 69, 71, 58, 60, 62], [- 63, - 61, - 59, - 154, - 72, - 70, - 68]),
     ([67, 69, 71, 58, 60, 62], [- 159, - 61, - 59, - 154, - 70, - 68]),
     ([67, 69, 58, 60, 158], [- 61, - 59, - 154, - 70, - 68]),
     ([58, 67, 60, 69], [- 157, - 68, - 59, - 154]),
     ([58, 67, 156], [- 68, - 59, - 154]),
     ([67, 69, 71, 170, 76, 78, 80], [- 164, - 81, - 79, - 77, - 72, - 70, - 68]),
     ([67, 69, 71, 76, 78, 80], [- 164, - 79, - 77, - 169, - 70, - 68]),
     ([67, 69, 168, 76, 78], [- 164, - 79, - 77, - 70, - 68]),
     ([67, 76, 69, 78], [- 167, - 68, - 77, - 164]),
     ([67, 76, 166], [- 68, - 77, - 164]),
     ([76, 78, 80, 180, 85, 87, 89], [- 90, - 88, - 86, - 81, - 79, - 174, - 77]),
     ([76, 78, 80, 85, 87, 89], [- 88, - 86, - 179, - 79, - 174, - 77]),
     ([76, 78, 178, 85, 87], [- 88, - 86, - 79, - 174, - 77]),
     ([76, 85, 78, 87], [- 86, - 174, - 77, - 177]),
     ([176, 76, 85], [- 86, - 174, - 77]),
     ([3, 5, 7, 9, 12, 14, 16, 18], [- 93, - 100, - 17, - 15, - 13, - 8, - 6, - 4]),
     ([3, 99, 5, 7, 12, 14, 16], [- 93, - 17, - 15, - 13, - 8, - 6, - 4]),
     ([3, 5, 7, 12, 14, 16], [- 93, - 15, - 13, - 6, - 4, - 98]),
     ([97, 3, 5, 12, 14], [- 93, - 15, - 13, - 6, - 4]),
     ([3, 12, 5, 14], [- 96, - 93, - 4, - 13]),
     ([3, 12, 95], [- 93, - 4, - 13]),
     ([12, 14, 16, 18, 21, 23, 25, 27], [- 26, - 24, - 22, - 17, - 15, - 110, - 13, - 103]),
     ([12, 109, 14, 16, 21, 23, 25], [- 26, - 24, - 22, - 17, - 15, - 13, - 103]),
     ([12, 14, 16, 21, 23, 25], [- 24, - 22, - 15, - 13, - 108, - 103]),
     ([107, 12, 14, 21, 23], [- 24, - 22, - 15, - 13, - 103]),
     ([12, 21, 14, 23], [- 103, - 22, - 13, - 106]),
     ([105, 12, 21], [- 103, - 22, - 13]),
     ([32, 34, 36, 21, 23, 25, 27, 30], [- 31, - 26, - 24, - 120, - 22, - 113, - 35, - 33]),
     ([32, 34, 119, 21, 23, 25, 30], [- 31, - 26, - 24, - 22, - 113, - 35, - 33]),
     ([32, 34, 21, 23, 25, 30], [- 31, - 24, - 22, - 118, - 113, - 33]),
     ([32, 117, 21, 23, 30], [- 31, - 24, - 22, - 113, - 33]),
     ([32, 21, 30, 23], [- 31, - 22, - 116, - 113]),
     ([115, 21, 30], [- 31, - 22, - 113]),
     ([32, 34, 36, 39, 41, 43, 45, 30], [- 31, - 123, - 44, - 42, - 40, - 35, - 130, - 33]),
     ([32, 129, 34, 39, 41, 43, 30], [- 31, - 123, - 44, - 42, - 40, - 35, - 33]),
     ([32, 34, 39, 41, 43, 30], [- 128, - 31, - 123, - 42, - 40, - 33]),
     ([32, 39, 41, 30, 127], [- 31, - 123, - 42, - 40, - 33]),
     ([32, 41, 30, 39], [- 40, - 31, - 126, - 123]),
     ([125, 30, 39], [- 40, - 31, - 123]),
     ([39, 41, 43, 45, 48, 50, 52, 54], [- 53, - 51, - 49, - 44, - 140, - 42, - 40, - 133]),
     ([39, 41, 43, 139, 48, 50, 52], [- 53, - 51, - 49, - 44, - 42, - 40, - 133]),
     ([39, 41, 43, 48, 50, 52], [- 51, - 49, - 42, - 138, - 40, - 133]),
     ([39, 41, 137, 48, 50], [- 51, - 49, - 42, - 40, - 133]),
     ([48, 41, 50, 39], [- 40, - 133, - 136, - 49]),
     ([48, 135, 39], [- 40, - 133, - 49]),
     ([48, 50, 52, 54, 57, 59, 61, 63], [- 62, - 60, - 58, - 150, - 53, - 51, - 49, - 143]),
     ([48, 50, 52, 149, 57, 59, 61], [- 62, - 60, - 58, - 53, - 51, - 49, - 143]),
     ([48, 50, 52, 57, 59, 61], [- 60, - 58, - 148, - 51, - 49, - 143]),
     ([48, 50, 147, 57, 59], [- 60, - 58, - 51, - 49, - 143]),
     ([48, 57, 50, 59], [- 143, - 146, - 58, - 49]),
     ([48, 57, 145], [- 143, - 58, - 49]),
     ([66, 68, 70, 72, 57, 59, 61, 63], [- 160, - 62, - 60, - 58, - 153, - 71, - 69, - 67]),
     ([66, 68, 70, 57, 59, 61, 159], [- 62, - 60, - 58, - 153, - 71, - 69, - 67]),
     ([66, 68, 70, 57, 59, 61], [- 158, - 60, - 58, - 153, - 69, - 67]),
     ([66, 68, 57, 59, 157], [- 60, - 58, - 153, - 69, - 67]),
     ([57, 66, 59, 68], [- 156, - 67, - 58, - 153]),
     ([57, 66, 155], [- 67, - 58, - 153]),
     ([66, 68, 70, 72, 75, 77, 79, 81], [- 67, - 80, - 78, - 76, - 170, - 71, - 69, - 163]),
     ([66, 68, 70, 169, 75, 77, 79], [- 67, - 80, - 78, - 76, - 71, - 69, - 163]),
     ([66, 68, 70, 75, 77, 79], [- 67, - 78, - 76, - 168, - 69, - 163]),
     ([66, 68, 167, 75, 77], [- 67, - 78, - 76, - 69, - 163]),
     ([66, 75, 68, 77], [- 166, - 76, - 163, - 67]),
     ([66, 75, 165], [- 76, - 163, - 67]),
     ([75, 77, 79, 81, 84, 86, 88, 90], [- 89, - 87, - 85, - 180, - 80, - 78, - 173, - 76]),
     ([75, 77, 79, 179, 84, 86, 88], [- 89, - 87, - 85, - 80, - 78, - 173, - 76]),
     ([75, 77, 79, 84, 86, 88], [- 87, - 85, - 178, - 78, - 173, - 76]),
     ([75, 77, 177, 84, 86], [- 87, - 85, - 78, - 173, - 76]),
     ([75, 84, 77, 86], [- 176, - 173, - 76, - 85]),
     ([75, 84, 175], [- 173, - 76, - 85]),
     ([2, 4, 100, 6, 8, 11, 13, 15, 17], [- 92, - 18, - 16, - 14, - 12, - 9, - 7, - 5, - 3]),
     ([2, 4, 6, 8, 11, 13, 15, 17], [- 92, - 99, - 16, - 14, - 12, - 7, - 5, - 3]),
     ([2, 98, 4, 6, 11, 13, 15], [- 92, - 16, - 14, - 12, - 7, - 5, - 3]),
     ([2, 4, 6, 11, 13, 15], [- 92, - 14, - 12, - 5, - 3, - 97]),
     ([96, 2, 4, 11, 13], [- 92, - 14, - 12, - 5, - 3]),
     ([2, 11, 4, 13], [- 95, - 12, - 92, - 3]),
     ([2, 11, 94], [- 12, - 92, - 3]),
     ([11, 13, 110, 15, 17, 20, 22, 24, 26], [- 27, - 25, - 23, - 21, - 18, - 16, - 14, - 12, - 102]),
     ([11, 13, 15, 17, 20, 22, 24, 26], [- 25, - 23, - 21, - 16, - 14, - 109, - 12, - 102]),
     ([11, 108, 13, 15, 20, 22, 24], [- 25, - 23, - 21, - 16, - 14, - 12, - 102]),
     ([11, 13, 15, 20, 22, 24], [- 23, - 21, - 14, - 12, - 107, - 102]),
     ([106, 11, 13, 20, 22], [- 23, - 21, - 14, - 12, - 102]),
     ([11, 20, 13, 22], [- 102, - 21, - 12, - 105]),
     ([104, 11, 20], [- 102, - 21, - 12]),
     ([33, 35, 20, 22, 24, 26, 120, 29, 31], [- 32, - 30, - 27, - 25, - 23, - 21, - 112, - 36, - 34]),
     ([33, 35, 20, 22, 24, 26, 29, 31], [- 32, - 30, - 25, - 23, - 119, - 21, - 112, - 34]),
     ([33, 20, 22, 118, 24, 29, 31], [- 32, - 30, - 25, - 23, - 21, - 112, - 34]),
     ([33, 20, 22, 24, 29, 31], [- 32, - 30, - 23, - 21, - 117, - 112]),
     ([116, 20, 22, 29, 31], [- 32, - 30, - 23, - 21, - 112]),
     ([20, 29, 22, 31], [- 112, - 30, - 21, - 115]),
     ([114, 20, 29], [- 112, - 30, - 21]),
     ([33, 130, 35, 38, 40, 42, 44, 29, 31], [- 32, - 30, - 122, - 45, - 43, - 41, - 39, - 36, - 34]),
     ([33, 35, 38, 40, 42, 44, 29, 31], [- 32, - 30, - 122, - 43, - 41, - 39, - 34, - 129]),
     ([128, 33, 38, 40, 42, 29, 31], [- 32, - 30, - 122, - 43, - 41, - 39, - 34]),
     ([33, 38, 40, 42, 29, 31], [- 32, - 127, - 30, - 122, - 41, - 39]),
     ([38, 40, 29, 126, 31], [- 32, - 30, - 122, - 41, - 39]),
     ([40, 29, 38, 31], [- 39, - 30, - 125, - 122]),
     ([124, 29, 38], [- 39, - 30, - 122]),
     ([38, 40, 42, 44, 140, 47, 49, 51, 53], [- 54, - 52, - 50, - 48, - 45, - 43, - 41, - 39, - 132]),
     ([38, 40, 42, 44, 47, 49, 51, 53], [- 52, - 50, - 48, - 43, - 139, - 41, - 39, - 132]),
     ([38, 40, 42, 138, 47, 49, 51], [- 52, - 50, - 48, - 43, - 41, - 39, - 132]),
     ([38, 40, 42, 47, 49, 51], [- 50, - 137, - 48, - 41, - 39, - 132]),
     ([38, 40, 136, 47, 49], [- 50, - 48, - 41, - 39, - 132]),
     ([40, 49, 38, 47], [- 48, - 39, - 132, - 135]),
     ([134, 38, 47], [- 48, - 39, - 132]),
     ([47, 49, 51, 53, 150, 56, 58, 60, 62], [- 63, - 61, - 59, - 57, - 54, - 52, - 50, - 48, - 142]),
     ([47, 49, 51, 53, 56, 58, 60, 62], [- 61, - 59, - 57, - 149, - 52, - 50, - 48, - 142]),
     ([47, 49, 51, 148, 56, 58, 60], [- 61, - 59, - 57, - 52, - 50, - 48, - 142]),
     ([47, 49, 51, 56, 58, 60], [- 59, - 57, - 147, - 50, - 48, - 142]),
     ([47, 49, 146, 56, 58], [- 59, - 57, - 50, - 48, - 142]),
     ([56, 49, 58, 47], [- 48, - 142, - 145, - 57]),
     ([56, 144, 47], [- 48, - 142, - 57]),
     ([160, 65, 67, 69, 71, 56, 58, 60, 62], [- 63, - 61, - 59, - 57, - 152, - 72, - 70, - 68, - 66]),
     ([65, 67, 69, 71, 56, 58, 60, 62], [- 159, - 61, - 59, - 57, - 152, - 70, - 68, - 66]),
     ([65, 67, 69, 56, 58, 60, 158], [- 61, - 59, - 57, - 152, - 70, - 68, - 66]),
     ([65, 67, 69, 56, 58, 60], [- 157, - 59, - 57, - 152, - 68, - 66]),
     ([65, 67, 56, 58, 156], [- 59, - 57, - 152, - 68, - 66]),
     ([56, 65, 58, 67], [- 152, - 155, - 66, - 57]),
     ([56, 65, 154], [- 152, - 66, - 57]),
     ([65, 67, 69, 71, 74, 170, 76, 78, 80], [- 81, - 162, - 79, - 77, - 75, - 72, - 70, - 68, - 66]),
     ([65, 67, 69, 71, 74, 76, 78, 80], [- 162, - 79, - 77, - 75, - 169, - 70, - 68, - 66]),
     ([65, 67, 69, 168, 74, 76, 78], [- 162, - 79, - 77, - 75, - 70, - 68, - 66]),
     ([65, 67, 69, 74, 76, 78], [- 162, - 77, - 75, - 167, - 68, - 66]),
     ([65, 67, 166, 74, 76], [- 162, - 77, - 75, - 68, - 66]),
     ([65, 74, 67, 76], [- 165, - 66, - 75, - 162]),
     ([65, 74, 164], [- 66, - 75, - 162]),
     ([74, 76, 78, 80, 83, 180, 85, 87, 89], [- 90, - 88, - 86, - 84, - 81, - 79, - 77, - 172, - 75]),
     ([74, 76, 78, 80, 83, 85, 87, 89], [- 88, - 86, - 84, - 179, - 79, - 77, - 172, - 75]),
     ([74, 76, 78, 178, 83, 85, 87], [- 88, - 86, - 84, - 79, - 77, - 172, - 75]),
     ([74, 76, 78, 83, 85, 87], [- 86, - 84, - 177, - 77, - 172, - 75]),
     ([74, 76, 176, 83, 85], [- 86, - 84, - 77, - 172, - 75]),
     ([74, 83, 76, 85], [- 175, - 84, - 172, - 75]),
     ([74, 83, 174], [- 84, - 172, - 75]),
     ([1, 3, 5, 7, 9, 10, 12, 14, 16, 18], [- 91, - 100, - 17, - 15, - 13, - 11, - 8, - 6, - 4, - 2]),
     ([1, 3, 99, 5, 7, 10, 12, 14, 16], [- 91, - 17, - 15, - 13, - 11, - 8, - 6, - 4, - 2]),
     ([1, 3, 5, 7, 10, 12, 14, 16], [- 91, - 15, - 13, - 98, - 11, - 6, - 4, - 2]),
     ([1, 97, 3, 5, 10, 12, 14], [- 91, - 15, - 13, - 11, - 6, - 4, - 2]),
     ([1, 3, 5, 10, 12, 14], [- 96, - 91, - 13, - 11, - 4, - 2]),
     ([1, 3, 10, 12, 95], [- 91, - 13, - 11, - 4, - 2]),
     ([1, 10, 3, 12], [- 11, - 94, - 91, - 2]),
     ([1, 10, 93], [- 11, - 91, - 2]),
     ([10, 12, 14, 16, 18, 19, 21, 23, 25, 27], [- 26, - 24, - 22, - 20, - 17, - 15, - 110, - 13, - 11, - 101]),
     ([10, 12, 109, 14, 16, 19, 21, 23, 25], [- 26, - 24, - 22, - 20, - 17, - 15, - 13, - 11, - 101]),
     ([10, 12, 14, 16, 19, 21, 23, 25], [- 24, - 22, - 20, - 15, - 13, - 108, - 11, - 101]),
     ([10, 107, 12, 14, 19, 21, 23], [- 24, - 22, - 20, - 15, - 13, - 11, - 101]),
     ([10, 12, 14, 19, 21, 23], [- 22, - 20, - 13, - 11, - 106, - 101]),
     ([105, 10, 12, 19, 21], [- 22, - 20, - 13, - 11, - 101]),
     ([10, 19, 12, 21], [- 104, - 101, - 20, - 11]),
     ([10, 19, 103], [- 101, - 20, - 11]),
     ([32, 34, 36, 19, 21, 23, 25, 27, 28, 30], [- 31, - 29, - 26, - 24, - 120, - 22, - 20, - 111, - 35, - 33]),
     ([32, 34, 19, 119, 21, 23, 25, 28, 30], [- 31, - 29, - 26, - 24, - 22, - 20, - 111, - 35, - 33]),
     ([32, 34, 19, 21, 23, 25, 28, 30], [- 31, - 29, - 24, - 22, - 118, - 20, - 111, - 33]),
     ([32, 19, 21, 117, 23, 28, 30], [- 31, - 29, - 24, - 22, - 20, - 111, - 33]),
     ([32, 19, 21, 23, 28, 30], [- 31, - 29, - 22, - 20, - 116, - 111]),
     ([115, 19, 21, 28, 30], [- 31, - 29, - 22, - 20, - 111]),
     ([19, 28, 21, 30], [- 111, - 29, - 20, - 114]),
     ([113, 19, 28], [- 111, - 29, - 20]),
     ([32, 34, 36, 37, 39, 41, 43, 45, 28, 30], [- 31, - 29, - 121, - 44, - 42, - 40, - 38, - 35, - 130, - 33]),
     ([32, 129, 34, 37, 39, 41, 43, 28, 30], [- 31, - 29, - 121, - 44, - 42, - 40, - 38, - 35, - 33]),
     ([32, 34, 37, 39, 41, 43, 28, 30], [- 128, - 31, - 29, - 121, - 42, - 40, - 38, - 33]),
     ([32, 37, 39, 41, 28, 30, 127], [- 31, - 29, - 121, - 42, - 40, - 38, - 33]),
     ([32, 37, 39, 41, 28, 30], [- 31, - 126, - 29, - 121, - 40, - 38]),
     ([37, 39, 28, 125, 30], [- 31, - 29, - 121, - 40, - 38]),
     ([28, 37, 30, 39], [- 38, - 29, - 124, - 121]),
     ([123, 28, 37], [- 38, - 29, - 121]),
     ([37, 39, 41, 43, 45, 46, 48, 50, 52, 54], [- 53, - 51, - 49, - 47, - 44, - 140, - 42, - 40, - 38, - 131]),
     ([37, 39, 41, 43, 139, 46, 48, 50, 52], [- 53, - 51, - 49, - 47, - 44, - 42, - 40, - 38, - 131]),
     ([37, 39, 41, 43, 46, 48, 50, 52], [- 51, - 49, - 47, - 42, - 138, - 40, - 38, - 131]),
     ([37, 39, 41, 137, 46, 48, 50], [- 51, - 49, - 47, - 42, - 40, - 38, - 131]),
     ([37, 39, 41, 46, 48, 50], [- 49, - 47, - 136, - 40, - 38, - 131]),
     ([37, 135, 39, 46, 48], [- 49, - 47, - 40, - 38, - 131]),
     ([48, 37, 46, 39], [- 47, - 38, - 131, - 134]),
     ([37, 46, 133], [- 47, - 38, - 131]),
     ([46, 48, 50, 52, 54, 55, 57, 59, 61, 63], [- 62, - 60, - 58, - 56, - 150, - 53, - 51, - 49, - 47, - 141]),
     ([46, 48, 50, 52, 149, 55, 57, 59, 61], [- 62, - 60, - 58, - 56, - 53, - 51, - 49, - 47, - 141]),
     ([46, 48, 50, 52, 55, 57, 59, 61], [- 60, - 58, - 56, - 148, - 51, - 49, - 47, - 141]),
     ([46, 48, 50, 147, 55, 57, 59], [- 60, - 58, - 56, - 51, - 49, - 47, - 141]),
     ([46, 48, 50, 55, 57, 59], [- 58, - 56, - 146, - 49, - 47, - 141]),
     ([46, 48, 145, 55, 57], [- 58, - 56, - 49, - 47, - 141]),
     ([48, 57, 46, 55], [- 56, - 47, - 141, - 144]),
     ([143, 46, 55], [- 56, - 47, - 141]),
     ([64, 66, 68, 70, 72, 55, 57, 59, 61, 63], [- 160, - 62, - 60, - 58, - 56, - 151, - 71, - 69, - 67, - 65]),
     ([64, 66, 68, 70, 55, 57, 59, 61, 159], [- 62, - 60, - 58, - 56, - 151, - 71, - 69, - 67, - 65]),
     ([64, 66, 68, 70, 55, 57, 59, 61], [- 158, - 60, - 58, - 56, - 151, - 69, - 67, - 65]),
     ([64, 66, 68, 55, 57, 59, 157], [- 60, - 58, - 56, - 151, - 69, - 67, - 65]),
     ([64, 66, 68, 55, 57, 59], [- 156, - 58, - 56, - 151, - 67, - 65]),
     ([64, 66, 55, 57, 155], [- 58, - 56, - 151, - 67, - 65]),
     ([64, 57, 66, 55], [- 56, - 151, - 154, - 65]),
     ([64, 153, 55], [- 56, - 151, - 65]),
     ([64, 66, 68, 70, 72, 73, 75, 77, 79, 81], [- 80, - 78, - 76, - 74, - 161, - 170, - 71, - 69, - 67, - 65]),
     ([64, 66, 68, 70, 73, 169, 75, 77, 79], [- 80, - 78, - 76, - 74, - 161, - 71, - 69, - 67, - 65]),
     ([64, 66, 68, 70, 73, 75, 77, 79], [- 78, - 76, - 74, - 161, - 168, - 69, - 67, - 65]),
     ([64, 66, 68, 167, 73, 75, 77], [- 78, - 76, - 74, - 161, - 69, - 67, - 65]),
     ([64, 66, 68, 73, 75, 77], [- 76, - 74, - 161, - 166, - 67, - 65]),
     ([64, 66, 165, 73, 75], [- 76, - 74, - 161, - 67, - 65]),
     ([64, 73, 66, 75], [- 65, - 164, - 74, - 161]),
     ([64, 73, 163], [- 65, - 74, - 161]),
     ([73, 75, 77, 79, 81, 82, 84, 86, 88, 90], [- 89, - 87, - 85, - 180, - 83, - 80, - 78, - 76, - 171, - 74]),
     ([73, 75, 77, 79, 82, 179, 84, 86, 88], [- 89, - 87, - 85, - 83, - 80, - 78, - 76, - 171, - 74]),
     ([73, 75, 77, 79, 82, 84, 86, 88], [- 87, - 85, - 83, - 178, - 78, - 76, - 171, - 74]),
     ([73, 75, 77, 177, 82, 84, 86], [- 87, - 85, - 83, - 78, - 76, - 171, - 74]),
     ([73, 75, 77, 82, 84, 86], [- 85, - 83, - 176, - 76, - 171, - 74]),
     ([73, 75, 175, 82, 84], [- 85, - 83, - 76, - 171, - 74]),
     ([73, 82, 75, 84], [- 174, - 171, - 74, - 83]),
     ([73, 82, 173], [- 171, - 74, - 83])]"

text \<open>
  The inner loop over the assumptions of one batch; the flag is \<^verbatim>\<open>try_learn\<close>.
\<close>

fun assume_batch ::
  "'s collab \<Rightarrow> nat \<Rightarrow> int list \<Rightarrow> 's \<Rightarrow> error + (bool \<times> 's)" where
  "assume_batch E fuel [] s = Inr (True, s)"
| "assume_batch E fuel (ass # rest) s =
    (if \<not> in_range E s ass then Inl UndefinedBehaviour
     else if flags_fixed E s ass then assume_batch E fuel rest s
     else if val E s ass \<noteq> 0 then assume_batch E fuel rest s
     else case propagate_or_analyze E fuel (search_assume_decision E ass s) of
       Inl e \<Rightarrow> Inl e
     | Inr (ok, s') \<Rightarrow> if ok then assume_batch E fuel rest s' else Inr (False, s'))"

text \<open>The loop over the batches; the result is the returned status with the state.\<close>

fun chess_rounds ::
  "'s collab \<Rightarrow> global_opts \<Rightarrow> nat \<Rightarrow> int \<Rightarrow> (int list \<times> int list) list \<Rightarrow> 's gstate
     \<Rightarrow> error + (int \<times> 's gstate)" where
  "chess_rounds E opts fuel original_time [] g = Inr (0, g)"
| "chess_rounds E opts fuel original_time ((ass_round_asses, gtry) # rest) g =
    (let g0 = g\<lparr>global_try := gtry\<rparr> in
     case assume_batch E fuel ass_round_asses (backtrack E 0 (solver g0)) of
       Inl e \<Rightarrow> Inl e
     | Inr (try_learn, s1) \<Rightarrow>
         (case (if try_learn
                then (case least_conditional_part E opts fuel original_time
                             (g0\<lparr>solver := s1\<rparr>) of
                        Inl e \<Rightarrow> Inl e
                      | Inr (added_a_clause, g') \<Rightarrow> Inr g')
                else Inr (g0\<lparr>solver := s1\<rparr>)) of
            Inl e \<Rightarrow> Inl e
          | Inr g1 \<Rightarrow>
              (case propagate_or_analyze E fuel (backtrack E 0 (solver g1)) of
                 Inl e \<Rightarrow> Inl e
               | Inr (ok, s2) \<Rightarrow>
                   if unsat E s2 then Inr (20, g1\<lparr>solver := s2\<rparr>)
                   else chess_rounds E opts fuel original_time rest (g1\<lparr>solver := s2\<rparr>))))"

definition global_preprocess_chess ::
  "'s collab \<Rightarrow> global_opts \<Rightarrow> nat \<Rightarrow> bool \<Rightarrow> 's gstate \<Rightarrow> error + (int \<times> 's gstate)" where
  "global_preprocess_chess E opts fuel can_open g =
    (case open_outputs can_open g of
       Inl e \<Rightarrow> Inl e
     | Inr g0 \<Rightarrow> chess_rounds E opts fuel (time_now E (solver g0)) asses g0)"

subsection \<open>The exhaustive driver \<^verbatim>\<open>global_preprocess\<close>\<close>

text \<open>
  One pass of the polarity loop for the pair \<open>i\<close>, \<open>j_polar\<close>, from the check of the
  flags to the \<^verbatim>\<open>if (unsat) return 20\<close> that ends the loop body.
\<close>

definition unsat_check :: "'s collab \<Rightarrow> 's gstate \<Rightarrow> 's gstate flow" where
  "unsat_check E g = (if unsat E (solver g) then Return 20 g else Next g)"

definition probe_pair ::
  "'s collab \<Rightarrow> global_opts \<Rightarrow> nat \<Rightarrow> int \<Rightarrow> int \<Rightarrow> int \<Rightarrow> 's gstate
     \<Rightarrow> error + 's gstate flow" where
  "probe_pair E opts fuel original_time i j_polar g =
    (if flags_fixed E (solver g) i then Inr (Break g)
     else if flags_fixed E (solver g) j_polar then Inr (Next g)
     else case propagate_loop E fuel (backtrack E 0 (solver g)) of
       Inl e \<Rightarrow> Inl e
     | Inr s1 \<Rightarrow>
         (case propagate_or_analyze E fuel (search_assume_decision E i s1) of
            Inl e \<Rightarrow> Inl e
          | Inr (ok, s2) \<Rightarrow>
              if \<not> ok then Inr (unsat_check E (g\<lparr>solver := s2\<rparr>))
              else if val E s2 j_polar \<noteq> 0 then Inr (Next (g\<lparr>solver := s2\<rparr>))
              else (case propagate_or_analyze E fuel (search_assume_decision E j_polar s2) of
                      Inl e \<Rightarrow> Inl e
                    | Inr (ok2, s3) \<Rightarrow>
                        if \<not> ok2 then Inr (unsat_check E (g\<lparr>solver := s3\<rparr>))
                        else (case least_conditional_part E opts fuel original_time
                                     (g\<lparr>solver := s3\<rparr>) of
                                Inl e \<Rightarrow> Inl e
                              | Inr (added_a_clause, g') \<Rightarrow>
                                  Inr (unsat_check E
                                         (g'\<lparr>solver := backtrack E 0 (solver g')\<rparr>))))))"

text \<open>The loop over the polarities of one \<open>j\<close>, up to the check of \<^verbatim>\<open>unsat\<close> after it.\<close>

fun polarity_loop ::
  "'s collab \<Rightarrow> global_opts \<Rightarrow> nat \<Rightarrow> int \<Rightarrow> int \<Rightarrow> int \<Rightarrow> int list \<Rightarrow> 's gstate
     \<Rightarrow> error + 's gstate flow" where
  "polarity_loop E opts fuel original_time i j [] g = Inr (unsat_check E g)"
| "polarity_loop E opts fuel original_time i j (polarity # rest) g =
    (if \<not> assert_holds (ndebug E) (\<not> unsat E (solver g)) then Inl AssertionFailed
     else case probe_pair E opts fuel original_time i (polarity * j) g of
       Inl e \<Rightarrow> Inl e
     | Inr (Next g') \<Rightarrow> polarity_loop E opts fuel original_time i j rest g'
     | Inr (Break g') \<Rightarrow> Inr (unsat_check E g')
     | Inr (Return status g') \<Rightarrow> Inr (Return status g'))"

text \<open>
  The loop over the touched literals, with the check of the time budget at its top,
  up to the check of \<^verbatim>\<open>unsat\<close> after the loop.
\<close>

fun touched_loop ::
  "'s collab \<Rightarrow> global_opts \<Rightarrow> nat \<Rightarrow> int \<Rightarrow> int \<Rightarrow> int list \<Rightarrow> 's gstate
     \<Rightarrow> error + 's gstate flow" where
  "touched_loop E opts fuel original_time i [] g = Inr (unsat_check E g)"
| "touched_loop E opts fuel original_time i (j # rest) g =
    (if time_now E (solver g) - original_time > globaltimelim opts
     then Inr (unsat_check E g)
     else if \<not> assert_holds (ndebug E) (\<not> unsat E (solver g)) then Inl AssertionFailed
     else case polarity_loop E opts fuel original_time i j
                 (if globalbothpol opts then [-1, 1] else [1]) g of
       Inl e \<Rightarrow> Inl e
     | Inr (Next g') \<Rightarrow> touched_loop E opts fuel original_time i rest g'
     | Inr (Break g') \<Rightarrow> Inr (Break g')
     | Inr (Return status g') \<Rightarrow> Inr (Return status g'))"

text \<open>
  The two single-literal probes that end an iteration of the outer loop, from the
  \<^verbatim>\<open>backtrack ()\<close> after the inner loop to the end of the body.
\<close>

definition probe_single ::
  "'s collab \<Rightarrow> nat \<Rightarrow> int \<Rightarrow> 's gstate \<Rightarrow> error + 's gstate flow" where
  "probe_single E fuel i g =
    (let s0 = backtrack E 0 (solver g) in
     if flags_fixed E s0 i then Inr (Next (g\<lparr>solver := s0\<rparr>))
     else case propagate_or_analyze E fuel (search_assume_decision E i s0) of
       Inl e \<Rightarrow> Inl e
     | Inr (ok, s1) \<Rightarrow>
         if \<not> ok then Inr (Next (g\<lparr>solver := backtrack E 0 s1\<rparr>))
         else let s2 = backtrack E 0 s1 in
           if \<not> assert_holds (ndebug E) (\<not> flags_fixed E s2 i) then Inl AssertionFailed
           else case propagate_or_analyze E fuel (search_assume_decision E (- i) s2) of
             Inl e \<Rightarrow> Inl e
           | Inr (ok2, s3) \<Rightarrow>
               if \<not> ok2 then Inr (Next (g\<lparr>solver := backtrack E 0 s3\<rparr>))
               else Inr (unsat_check E (g\<lparr>solver := s3\<rparr>)))"

text \<open>
  The choice of the candidate literal for the iteration \<open>count\<close>.  \<open>rnd\<close> is the sequence
  of values that \<^verbatim>\<open>rand ()\<close> returns after \<^verbatim>\<open>srand (seed)\<close>: the random policy calls it
  twice at the top of every iteration, so iteration \<open>count\<close> reads the entries
  \<open>2 * (count - 1)\<close> and the next.  \<open>None\<close> is the \<^verbatim>\<open>break\<close> of the sorted policy.
  The random policy divides by \<^verbatim>\<open>max_var\<close>, which is positive inside the loop.
\<close>

definition choose_candidate ::
  "'s collab \<Rightarrow> global_opts \<Rightarrow> (nat \<Rightarrow> int) \<Rightarrow> int list \<Rightarrow> int \<Rightarrow> 's \<Rightarrow> int option" where
  "choose_candidate E opts rnd sorted_literals count s =
    (if globalisort opts
     then (if count < int (length sorted_literals) then Some (sorted_literals ! nat count)
           else None)
     else if globalorderi opts then Some count
     else let i_no_polarity = (rnd (2 * nat (count - 1)) mod max_var E s) + 1;
              i_polarity = rnd (2 * nat (count - 1) + 1) mod 2
          in Some ((if i_polarity \<noteq> 0 then -1 else 1) * i_no_polarity))"

text \<open>
  The outer loop over \<open>count\<close>, with the check of the time budget at its top.  The
  result is the state at the end of the loop (after a \<^verbatim>\<open>break\<close> or the last iteration),
  or the status and state of a \<^verbatim>\<open>return\<close> inside the loop.
\<close>

fun candidate_loop ::
  "'s collab \<Rightarrow> global_opts \<Rightarrow> nat \<Rightarrow> (nat \<Rightarrow> int) \<Rightarrow> int \<Rightarrow> int list \<Rightarrow> int list
     \<Rightarrow> 's gstate \<Rightarrow> error + 's gstate flow" where
  "candidate_loop E opts fuel rnd original_time sorted_literals [] g = Inr (Next g)"
| "candidate_loop E opts fuel rnd original_time sorted_literals (count # rest) g =
    (if time_now E (solver g) - original_time > globaltimelim opts then Inr (Next g)
     else case choose_candidate E opts rnd sorted_literals count (solver g) of
       None \<Rightarrow> Inr (Next g)
     | Some i \<Rightarrow>
         (let s0 = backtrack E 0 (solver g) in
          if flags_fixed E s0 i
          then candidate_loop E opts fuel rnd original_time sorted_literals rest
                 (g\<lparr>solver := s0\<rparr>)
          else case propagate E (search_assume_decision E i s0) of
            (ok, s1) \<Rightarrow>
              if \<not> ok
              then (case propagate E (analyze E s1) of
                      (ok2, s2) \<Rightarrow>
                        if \<not> ok2 then Inr (Next (g\<lparr>solver := analyze E s2\<rparr>))
                        else candidate_loop E opts fuel rnd original_time sorted_literals
                               rest (g\<lparr>solver := s2\<rparr>))
              else (case get_touched_literals E opts s1 of
                      (touched_literals, s2) \<Rightarrow>
                        (case touched_loop E opts fuel original_time i touched_literals
                                (g\<lparr>solver := s2\<rparr>) of
                           Inl e \<Rightarrow> Inl e
                         | Inr (Return status g') \<Rightarrow> Inr (Return status g')
                         | Inr (Break g') \<Rightarrow> Inr (Break g')
                         | Inr (Next g') \<Rightarrow>
                             (case probe_single E fuel i g' of
                                Inl e \<Rightarrow> Inl e
                              | Inr (Return status g'') \<Rightarrow> Inr (Return status g'')
                              | Inr (Break g'') \<Rightarrow> Inr (Break g'')
                              | Inr (Next g'') \<Rightarrow>
                                  candidate_loop E opts fuel rnd original_time
                                    sorted_literals rest g'')))))"

text \<open>
  \<^verbatim>\<open>global_preprocess\<close>: the status (0 or 20) with the state at the return.
\<close>

definition global_preprocess ::
  "'s collab \<Rightarrow> global_opts \<Rightarrow> nat \<Rightarrow> (nat \<Rightarrow> int) \<Rightarrow> bool \<Rightarrow> 's gstate
     \<Rightarrow> error + (int \<times> 's gstate)" where
  "global_preprocess E opts fuel rnd can_open g =
    (case open_outputs can_open g of
       Inl e \<Rightarrow> Inl e
     | Inr g0 \<Rightarrow>
         (let original_time = time_now E (solver g0);
              sorted_literals = (if globalisort opts then get_sorted_literals E (solver g0)
                                 else [])
          in case candidate_loop E opts fuel rnd original_time sorted_literals
                    [1 .. max_var E (solver g0)] g0 of
               Inl e \<Rightarrow> Inl e
             | Inr (Return status g') \<Rightarrow> Inr (status, g')
             | Inr (Break g') \<Rightarrow> Inr (if unsat E (solver g') then 20 else 0, g')
             | Inr (Next g') \<Rightarrow> Inr (if unsat E (solver g') then 20 else 0, g')))"

text \<open>
  A probe as the drivers make it: assume each literal in turn and propagate.  The
  formula \<open>formula_link\<close> is \<open>(\<not>x1 \<or> x3 \<or> x4) \<and> (\<not>x1 \<or> x2) \<and> (x2 \<or> x1)\<close>: under
  the probe \<open>x1\<close> the first clause is not satisfied and has the false literal \<open>\<not>x1\<close>, the
  literal \<open>x2\<close> is implied, and the binary clause \<open>(x2 \<or> x1)\<close> links the antecedent \<open>x2\<close>
  to the negation of \<open>\<not>x1\<close>.
\<close>

definition mini_probe :: "int list \<Rightarrow> mini \<Rightarrow> mini" where
  "mini_probe lits s = fold (\<lambda>l s. snd (mini_propagate (mini_assume l s))) lits s"

definition formula_link :: mini where
  "formula_link = mini_init 4 [[-1, 3, 4], [-1, 2], [2, 1]]"

section \<open>The triviality check in the words of the spec\<close>

text \<open>
  The spec's section 4.6, as the claim reads it: a clause is trivial when its literal
  count exceeds the configured maximum, or when assuming the negation of each literal
  in sequence, skipping the literals already true or false, reaches a propagation
  conflict.  \<open>spec_conflict_claimed\<close> is the second condition, from a given state.
\<close>

fun spec_conflict_claimed :: "'s collab \<Rightarrow> int list \<Rightarrow> 's \<Rightarrow> bool" where
  "spec_conflict_claimed E [] s = False"
| "spec_conflict_claimed E (lit # c) s =
    (if val E s lit \<noteq> 0 then spec_conflict_claimed E c s
     else case propagate E (search_assume_decision E (- lit) s) of
       (ok, s') \<Rightarrow> if \<not> ok then True else spec_conflict_claimed E c s')"

definition spec_trivial_claimed :: "'s collab \<Rightarrow> global_opts \<Rightarrow> int list \<Rightarrow> 's \<Rightarrow> bool" where
  "spec_trivial_claimed E opts c s =
    (int (length c) > globalmaxlen opts \<or> spec_conflict_claimed E c (backtrack E 0 s))"

text \<open>
  The amended reading: only the literals already false are skipped; a literal already
  true ends the scan with the answer "trivial", as a conflict does.  The length is
  compared with the bound as the code compares it (as an unsigned number).
\<close>

fun spec_conflict_amended :: "'s collab \<Rightarrow> int list \<Rightarrow> 's \<Rightarrow> bool" where
  "spec_conflict_amended E [] s = False"
| "spec_conflict_amended E (lit # c) s =
    (if val E s lit > 0 then True
     else if val E s lit < 0 then spec_conflict_amended E c s
     else case propagate E (search_assume_decision E (- lit) s) of
       (ok, s') \<Rightarrow> if \<not> ok then True else spec_conflict_amended E c s')"

definition spec_trivial_amended :: "'s collab \<Rightarrow> global_opts \<Rightarrow> int list \<Rightarrow> 's \<Rightarrow> bool" where
  "spec_trivial_amended E opts c s =
    (int (length c) > size_t_of_int (globalmaxlen opts) \<or>
     spec_conflict_amended E c (backtrack E 0 s))"

text \<open>
  A state with a root-level fact: the formula \<open>(x2) \<and> (x1 \<or> x3)\<close> after propagation at
  level 0, where \<open>x2\<close> is true.
\<close>

definition state_unit :: mini where
  "state_unit = snd (mini_propagate (mini_init 3 [[2], [1, 3]]))"


definition opts_budget0 :: global_opts where
  "opts_budget0 = opts_bcp\<lparr>globaltimelim := 0\<rparr>"

definition formula_two :: mini where
  "formula_two = mini_init 2 [[1, 2], [-1, 2], [1, -2]]"

text \<open>One clause of twelve literals, longer than the length bound 10 of \<open>opts_bcp\<close>.\<close>

definition formula_long :: mini where
  "formula_long = mini_init 12 [[-1, 2, 3, 4, 5, 6, 7, 8, 9, 10, 11, 12]]"

definition formula_180 :: mini where
  "formula_180 = mini_init 180 [[2, 3], [2, -3], [-2, 3], [-2, -3]]"




section \<open>Properties of the limit manager\<close>



























lemma init_restart_limit_overflow:
  "init_search_limits nd ia sa limit_opts0 (limits0\<lparr>stats_conflicts := 2 ^ 63 - 1\<rparr>)
     = Inl UndefinedBehaviour"
  by (simp add: init_search_limits_def and_then_def init_reduce_limit_def
      init_flush_limit_def init_rephase_limit_def add_int64_def int64_range_def
      limits0_def limit_opts0_def)




section \<open>Properties of the shrink strategies\<close>

text \<open>
  C7 (the claim: \<^verbatim>\<open>propagate_shrink\<close> returns a well-defined boolean on every path).  The
  code does not: the only \<^verbatim>\<open>return\<close> statement is the \<^verbatim>\<open>return false\<close> inside the loop.
  With no antecedent literal the loop body never runs and the function ends without
  a value; for every input the call either returns false or ends without a value, and
  it never returns true.
\<close>

theorem C7_propagate_shrink_ends_without_value:
  "propagate_shrink E s [] alpha_a_useful neg_alpha_c_minus_c0 = Inl UndefinedBehaviour \<and>
   (propagate_shrink E s alpha_a alpha_a_useful neg_alpha_c_minus_c0 = Inl UndefinedBehaviour \<or>
    (\<exists>s'. propagate_shrink E s alpha_a alpha_a_useful neg_alpha_c_minus_c0 = Inr (False, s')))"
  by (simp add: propagate_shrink_def split: sum.splits prod.splits)

text \<open>
  C1 (the claim: the residual and useful sets that step 5 assembles reflect the
  removals and retentions of the two shrink strategies).  Both functions take the
  vectors by value, so the caller's useful set stays empty and its residual stays the
  whole negated conditional part, whatever the strategy finds.  With binary-clause
  shrink the caller's pair is unchanged for every input.  On \<open>formula_link\<close> under the probe
  \<open>x1\<close>, the function's own copies end as useful \<open>[x2]\<close> and residual \<open>[]\<close>, yet the
  clause emitted is the raw candidate \<open>\<not>x1 \<or> x2\<close>; with propagation shrink the call ends
  without a value there.
\<close>

theorem C1_shrink_results_are_discarded:
  "shrink_step E (opts\<lparr>globalalphaagreedy := False, globalbcp := True\<rparr>) gtry s alpha_a
      neg_alpha_c = Inr (Inr (([], neg_alpha_c), s)) \<and>
   bcp_shrink_loop (mini_collab False) (mini_probe [1] formula_link) [1, 2] ([], [-1])
     = ([2], []) \<and>
   (case least_conditional_part (mini_collab False) opts_bcp 5 0
           (ginit (mini_probe [1] formula_link)) of
      Inl e \<Rightarrow> False
    | Inr (adding_a_clause, g') \<Rightarrow> adding_a_clause \<and> learnt g' = [[-1, 2]]) \<and>
   least_conditional_part (mini_collab False) (opts_bcp\<lparr>globalbcp := False\<rparr>) 5 0
      (ginit (mini_probe [1] formula_link)) = Inl UndefinedBehaviour"
proof -
  have general: "shrink_step E (opts\<lparr>globalalphaagreedy := False, globalbcp := True\<rparr>) gtry s
      alpha_a neg_alpha_c = Inr (Inr (([], neg_alpha_c), s))"
    by (simp add: shrink_step_def Let_def split: unit.splits)
  have copies: "bcp_shrink_loop (mini_collab False) (mini_probe [1] formula_link) [1, 2]
      ([], [-1]) = ([2], [])"
    by code_simp
  have emitted: "(case least_conditional_part (mini_collab False) opts_bcp 5 0
           (ginit (mini_probe [1] formula_link)) of
      Inl e \<Rightarrow> False
    | Inr (adding_a_clause, g') \<Rightarrow> adding_a_clause \<and> learnt g' = [[-1, 2]])"
    by code_simp
  have no_value: "least_conditional_part (mini_collab False) (opts_bcp\<lparr>globalbcp := False\<rparr>)
      5 0 (ginit (mini_probe [1] formula_link)) = Inl UndefinedBehaviour"
    by code_simp
  from general copies emitted no_value show ?thesis by blast
qed

section \<open>Properties of the greedy set cover\<close>

lemma set_fold_removeAll: "set (fold removeAll xs ys) = set ys - set xs"
  by (induction xs arbitrary: ys) auto

text \<open>
  Both selection loops keep \<^verbatim>\<open>uncovered\<close> equal to the elements of the input that no
  chosen subset contains, and choose indices of \<^verbatim>\<open>subsets\<close> only.
\<close>

lemma special_loop_inv:
  assumes "special_loop nd gt alpha_a subsets (chosen, covered, uncovered)
             = Inr (chosen', covered', uncovered')"
    and "set uncovered = T - (\<Union>i\<in>set chosen. set (subsets ! i))"
    and "\<forall>i\<in>set chosen. i < length subsets"
  shows "set uncovered' = T - (\<Union>i\<in>set chosen'. set (subsets ! i)) \<and>
         (\<forall>i\<in>set chosen'. i < length subsets)"
  using assms
proof (induction gt arbitrary: chosen covered uncovered)
  case Nil
  then show ?case by simp
next
  case (Cons learn rest)
  let ?k = "find_index learn alpha_a"
  from Cons.prems(1) have k: "?k < length subsets"
    by (auto simp: Let_def split: if_splits)
  from Cons.prems(1) k have step:
    "special_loop nd rest alpha_a subsets
       (chosen @ [?k], List.union (subsets ! ?k) covered, fold removeAll (subsets ! ?k) uncovered)
       = Inr (chosen', covered', uncovered')"
    by (auto simp: Let_def split: if_splits)
  have inv: "set (fold removeAll (subsets ! ?k) uncovered)
               = T - (\<Union>i\<in>set (chosen @ [?k]). set (subsets ! i))"
    using Cons.prems(2) by (auto simp: set_fold_removeAll)
  have bound: "\<forall>i\<in>set (chosen @ [?k]). i < length subsets"
    using Cons.prems(3) k by auto
  from Cons.IH [OF step inv bound] show ?case .
qed

lemma greedy_loop_inv:
  assumes "greedy_loop subsets tot (chosen, covered, uncovered) = (chosen', covered', uncovered')"
    and "set uncovered = T - (\<Union>i\<in>set chosen. set (subsets ! i))"
    and "\<forall>i\<in>set chosen. i < length subsets"
  shows "set uncovered' = T - (\<Union>i\<in>set chosen'. set (subsets ! i)) \<and>
         (\<forall>i\<in>set chosen'. i < length subsets)"
  using assms
proof (induction subsets tot "(chosen, covered, uncovered)"
        arbitrary: chosen covered uncovered rule: greedy_loop.induct)
  case (1 subsets tot chosen covered uncovered)
  let ?b = "fst (best_subset covered subsets 0 (- 1, 0))"
  show ?case
  proof (cases "length covered < length tot \<and> ?b \<noteq> - 1")
    case False
    with "1.prems" show ?thesis
      by (auto simp: greedy_loop.simps [of subsets tot chosen covered uncovered] Let_def
          split: if_splits)
  next
    case True
    obtain m where bm: "best_subset covered subsets (length ([]::int list list)) (-1, 0) = (?b, m)"
      by (cases "best_subset covered subsets 0 (- 1, 0)") simp
    from best_subset_inv [OF _ bm] True have k: "nat ?b < length subsets" by auto
    let ?k = "nat ?b"
    from True "1.prems"(1) have step:
      "greedy_loop subsets tot
         (chosen @ [?k], List.union (subsets ! ?k) covered, fold removeAll (subsets ! ?k) uncovered)
         = (chosen', covered', uncovered')"
      by (simp add: greedy_loop.simps [of subsets tot chosen covered uncovered] Let_def)
    have inv: "set (fold removeAll (subsets ! ?k) uncovered)
                 = T - (\<Union>i\<in>set (chosen @ [?k]). set (subsets ! i))"
      using "1.prems"(2) by (auto simp: set_fold_removeAll)
    have bound: "\<forall>i\<in>set (chosen @ [?k]). i < length subsets"
      using "1.prems"(3) k by auto
    from True have c: "length covered < length tot" "?b \<noteq> - 1" by auto
    from "1.hyps" [OF c(1) refl c(2) step inv bound] show ?thesis .
  qed
qed

lemma cover_from_residual:
  assumes "set residual = set tot - (\<Union>i\<in>set chosen. set (subsets ! i))"
    and "\<forall>i\<in>set chosen. i < length subsets"
    and "\<forall>sub\<in>set subsets. set sub \<subseteq> set tot"
  shows "set residual \<subseteq> set tot \<and>
         (\<Union>i\<in>set chosen. set (subsets ! i)) = set tot - set residual"
proof -
  have "(\<Union>i\<in>set chosen. set (subsets ! i)) \<subseteq> set tot"
    using assms(2,3) nth_mem by blast
  with assms(1) show ?thesis by blast
qed

text \<open>The coverage sets that \<^verbatim>\<open>greedy_sort_alpha_a\<close> collects are drawn from \<^verbatim>\<open>neg_alpha_c\<close>,
  one for each useful antecedent.\<close>

lemma greedy_collect_sets:
  assumes "greedy_collect E alpha_a neg_alpha_c (useful, sets, s) = (useful', sets', s')"
    and "\<forall>sub\<in>set sets. set sub \<subseteq> set neg_alpha_c" and "length useful = length sets"
  shows "(\<forall>sub\<in>set sets'. set sub \<subseteq> set neg_alpha_c) \<and> length useful' = length sets'"
  using assms
proof (induction alpha_a arbitrary: useful sets s)
  case Nil
  then show ?case by simp
next
  case (Cons a rest)
  have p: "set (propagated_set E t neg_alpha_c) \<subseteq> set neg_alpha_c" for t
    by (auto simp: propagated_set_def)
  consider
    (stop) "useful' = useful" "sets' = sets"
  | (same) t where "greedy_collect E rest neg_alpha_c (useful, sets, t) = (useful', sets', s')"
  | (more) t where "greedy_collect E rest neg_alpha_c
        (useful @ [a], sets @ [propagated_set E t neg_alpha_c], t) = (useful', sets', s')"
    using Cons.prems(1) by (auto simp: Let_def split: if_splits prod.splits)
  then show ?case
  proof cases
    case stop
    with Cons.prems(2,3) show ?thesis by simp
  next
    case same
    from Cons.IH [OF same Cons.prems(2,3)] show ?thesis .
  next
    case more
    have "\<forall>sub\<in>set (sets @ [propagated_set E t neg_alpha_c]). set sub \<subseteq> set neg_alpha_c"
      using Cons.prems(2) p by auto
    moreover have "length (useful @ [a]) = length (sets @ [propagated_set E t neg_alpha_c])"
      using Cons.prems(3) by simp
    ultimately show ?thesis using Cons.IH [OF more] by blast
  qed
qed

text \<open>
  C3: for every family of coverage sets drawn from the negated conditional part, the
  greedy selection (\<^verbatim>\<open>greedySetCover\<close>, and \<^verbatim>\<open>greedySetCoverSpecial\<close>, the one that
  \<^verbatim>\<open>greedy_sort_alpha_a\<close> calls, whenever it returns) leaves a residual that is a subset of
  the negated conditional part, and the union of the chosen coverage sets is the negated
  conditional part minus the residual.  The coverage sets that \<^verbatim>\<open>greedy_sort_alpha_a\<close>
  collects are such a family, one set for each useful antecedent.
\<close>

theorem C3_greedy_cover_residual:
  assumes "\<forall>sub\<in>set subsets. set sub \<subseteq> set total_elements"
  shows
   "(\<forall>chosen residual.
       greedySetCoverSpecial nd curr_global_try alpha_a subsets total_elements
         = Inr (chosen, residual) \<longrightarrow>
       set residual \<subseteq> set total_elements \<and>
       (\<Union>i\<in>set chosen. set (subsets ! i)) = set total_elements - set residual) \<and>
    (\<forall>chosen residual.
       greedySetCover subsets total_elements = (chosen, residual) \<longrightarrow>
       set residual \<subseteq> set total_elements \<and>
       (\<Union>i\<in>set chosen. set (subsets ! i)) = set total_elements - set residual) \<and>
    (\<forall>useful sets s'.
       greedy_collect E antecedents total_elements ([], [], s) = (useful, sets, s') \<longrightarrow>
       (\<forall>sub\<in>set sets. set sub \<subseteq> set total_elements) \<and> length useful = length sets)"
proof (intro conjI allI impI)
  fix chosen residual
  assume r: "greedySetCoverSpecial nd curr_global_try alpha_a subsets total_elements
               = Inr (chosen, residual)"
  then obtain covered where
    "special_loop nd curr_global_try alpha_a subsets ([], [], remdups total_elements)
       = Inr (chosen, covered, residual)"
    by (auto simp: greedySetCoverSpecial_def split: sum.splits)
  from special_loop_inv [OF this, of "set total_elements"]
  have "set residual = set total_elements - (\<Union>i\<in>set chosen. set (subsets ! i))"
    "\<forall>i\<in>set chosen. i < length subsets" by simp_all
  from cover_from_residual [OF this assms]
  show "set residual \<subseteq> set total_elements"
    and "(\<Union>i\<in>set chosen. set (subsets ! i)) = set total_elements - set residual"
    by blast+
next
  fix chosen residual
  assume r: "greedySetCover subsets total_elements = (chosen, residual)"
  then obtain covered where
    "greedy_loop subsets total_elements ([], [], remdups total_elements)
       = (chosen, covered, residual)"
    by (auto simp: greedySetCover_def split: prod.splits)
  from greedy_loop_inv [OF this, of "set total_elements"]
  have "set residual = set total_elements - (\<Union>i\<in>set chosen. set (subsets ! i))"
    "\<forall>i\<in>set chosen. i < length subsets" by simp_all
  from cover_from_residual [OF this assms]
  show "set residual \<subseteq> set total_elements"
    and "(\<Union>i\<in>set chosen. set (subsets ! i)) = set total_elements - set residual"
    by blast+
next
  fix useful sets s'
  assume "greedy_collect E antecedents total_elements ([], [], s) = (useful, sets, s')"
  from greedy_collect_sets [OF this]
  show "\<forall>sub\<in>set sets. set sub \<subseteq> set total_elements" and "length useful = length sets"
    by simp_all
qed

theorem C3_greedy_cover_residual_witness:
  "set [1, 2] \<subseteq> set [1, 2, 3, 4 :: int] \<and> set [3] \<subseteq> set [1, 2, 3, 4 :: int] \<and>
   greedySetCoverSpecial False [7] [7, 8] [[1, 2], [3]] [1, 2, 3, 4] = Inr ([0], [3, 4]) \<and>
   greedySetCover [[1, 2], [3]] [1, 2, 3, 4] = ([0, 1], [4]) \<and>
   set [4 :: int] \<subseteq> set [1, 2, 3, 4] \<and>
   (\<Union>i\<in>set [0, 1]. set ([[1, 2], [3 :: int]] ! i)) = set [1, 2, 3, 4] - set [4]"
proof -
  have h: "\<forall>sub\<in>set [[1, 2], [3]]. set sub \<subseteq> set [1, 2, 3, 4 :: int]" by simp
  have e1: "greedySetCoverSpecial False [7] [7, 8] [[1, 2], [3]] [1, 2, 3, 4] = Inr ([0], [3, 4])"
    by code_simp
  have e2: "greedySetCover [[1, 2], [3]] [1, 2, 3, 4] = ([0, 1], [4])"
    unfolding greedySetCover_def
    apply (subst greedy_loop.simps, simp add: new_elements_def List.union_def List.insert_def)
    apply (subst greedy_loop.simps, simp add: new_elements_def List.union_def List.insert_def)
    apply (subst greedy_loop.simps, simp add: new_elements_def List.union_def List.insert_def)
    done
  note r = C3_greedy_cover_residual [OF h, THEN conjunct2, THEN conjunct1, rule_format, OF e2]
  from r have r1: "set [4 :: int] \<subseteq> set [1, 2, 3, 4]"
    and r2: "(\<Union>i\<in>set [0, 1]. set ([[1, 2], [3 :: int]] ! i)) = set [1, 2, 3, 4] - set [4]"
    by (rule conjunct1, rule conjunct2)
  have h1: "set [1, 2] \<subseteq> set [1, 2, 3, 4 :: int]" and h2: "set [3] \<subseteq> set [1, 2, 3, 4 :: int]"
    by simp_all
  from h1 h2 e1 e2 r1 r2 show ?thesis by (intro conjI)
qed

section \<open>Properties of the triviality check\<close>

lemma size_t_of_int_id: "0 \<le> i \<Longrightarrow> i < 2 ^ 64 \<Longrightarrow> size_t_of_int i = i"
  by (simp add: size_t_of_int_def)

text \<open>The scan of the literals answers as the amended reading says, and fails only
  by running out of fuel in the conflict loop, after a conflict.\<close>

lemma conflict_loop_error: "conflict_loop E fuel s = Inl e \<Longrightarrow> e = OutOfFuel"
  by (induction fuel arbitrary: s) (auto split: if_splits prod.splits)

lemma trivial_loop_amended:
  "(\<forall>b s'. trivial_loop E fuel c s = Inr (b, s') \<longrightarrow> b = spec_conflict_amended E c s) \<and>
   (\<forall>e. trivial_loop E fuel c s = Inl e \<longrightarrow> e = OutOfFuel \<and> spec_conflict_amended E c s)"
proof (induction c arbitrary: s)
  case Nil
  show ?case by simp
next
  case (Cons lit c)
  obtain ok s2 where p: "propagate E (search_assume_decision E (- lit) s) = (ok, s2)"
    by (cases "propagate E (search_assume_decision E (- lit) s)")
  consider (true) "val E s lit > 0" | (false) "val E s lit < 0"
    | (free_ok) "val E s lit = 0" "ok" | (free_conflict) "val E s lit = 0" "\<not> ok"
    by linarith
  then show ?case
  proof cases
    case true
    then show ?thesis by simp
  next
    case false
    with Cons.IH [of s] show ?thesis by simp
  next
    case free_ok
    with p Cons.IH [of s2] show ?thesis by simp
  next
    case free_conflict
    with p conflict_loop_error [of E fuel "analyze E s2"] show ?thesis
      by (auto split: sum.splits)
  qed
qed

text \<open>
  C5, amended: \<^verbatim>\<open>check_if_clause_trivial\<close> returns true if and only if the literal count
  exceeds the configured maximum (compared as an unsigned number: for a bound between
  0 and the largest \<^verbatim>\<open>int\<close> that is the bound itself), or the scan of the literals from
  level 0 meets a literal already assigned true, or a propagation conflict after
  assuming the negation of an unassigned literal; only literals already assigned false
  are skipped.  The one way not to return is the conflict loop running on (out of fuel
  in the model), which happens after a conflict only.
\<close>

theorem C5_trivial_iff_amended:
  "(case check_if_clause_trivial E opts fuel c s of
      Inr (is_trivial, s') \<Rightarrow> is_trivial = spec_trivial_amended E opts c s
    | Inl e \<Rightarrow> e = OutOfFuel \<and> spec_trivial_amended E opts c s)"
proof (cases "int (length c) > size_t_of_int (globalmaxlen opts)")
  case True
  then show ?thesis by (simp add: check_if_clause_trivial_def spec_trivial_amended_def)
next
  case False
  with trivial_loop_amended [where E = E and fuel = fuel and c = c and s = "backtrack E 0 s"]
  show ?thesis
    by (auto simp: check_if_clause_trivial_def spec_trivial_amended_def split: sum.splits)
qed

text \<open>
  C5, as stated (literals already true are skipped like those already false).  On
  \<open>formula_link\<close> the candidate \<open>\<not>x1 \<or> x2\<close> is implied by unit propagation: assuming \<open>x1\<close>
  makes \<open>x2\<close> true without a conflict, so the stated condition (skip \<open>x2\<close>, all literals
  exhausted) is false, yet the function returns true at the true literal.  The same on
  the clause \<open>(x2)\<close> with \<open>x2\<close> true at level 0, where there is nothing to assume.
\<close>

theorem C5_true_literal_counterexample:
  "(case check_if_clause_trivial (mini_collab False) opts_bcp 5 [-1, 2]
           (mini_probe [1] formula_link) of
      Inl e \<Rightarrow> False | Inr (is_trivial, s') \<Rightarrow> is_trivial) \<and>
   \<not> spec_trivial_claimed (mini_collab False) opts_bcp [-1, 2] (mini_probe [1] formula_link) \<and>
   spec_trivial_amended (mini_collab False) opts_bcp [-1, 2] (mini_probe [1] formula_link) \<and>
   check_if_clause_trivial (mini_collab False) opts_bcp 5 [2] state_unit
     = Inr (True, state_unit) \<and>
   \<not> spec_trivial_claimed (mini_collab False) opts_bcp [2] state_unit \<and>
   spec_trivial_amended (mini_collab False) opts_bcp [2] state_unit"
  by code_simp

lemma mini_backtrack_level: "level (mini_collab nd) (backtrack (mini_collab nd) 0 s) = 0"
  by (simp add: mini_collab_def mini_backtrack_def)

text \<open>
  C6, as stated (level 0 on both return paths, from any entry level): the clause of
  twelve literals of \<open>formula_long\<close> with the bound 10, checked at level 1 under the
  probe \<open>x1\<close>, returns true at once and the solver is still at level 1.
\<close>

theorem C6_oversized_clause_counterexample:
  "check_if_clause_trivial (mini_collab False) opts_bcp 5
     [-1, 2, 3, 4, 5, 6, 7, 8, 9, 10, 11, 12] (mini_probe [1] formula_long)
     = Inr (True, mini_probe [1] formula_long) \<and>
   level (mini_collab False) (mini_probe [1] formula_long) = 1"
  by code_simp

text \<open>
  C6, amended: for a collaborator \<^verbatim>\<open>backtrack\<close> that reaches level 0, every return of
  \<^verbatim>\<open>check_if_clause_trivial\<close> on a clause within the length bound, true or false, leaves
  the solver at decision level 0 from any entry level (the empty and the one-literal
  clause included); on a clause beyond the bound the function returns true before
  touching the solver, which stays in its entry state.
\<close>

theorem C6_level_zero_within_length:
  assumes "\<forall>t. level E (backtrack E 0 t) = 0"
    and "check_if_clause_trivial E opts fuel c s = Inr (is_trivial, s')"
  shows "if int (length c) > size_t_of_int (globalmaxlen opts)
         then is_trivial \<and> s' = s else level E s' = 0"
  using assms
  by (auto simp: check_if_clause_trivial_def split: if_splits sum.splits)

theorem C6_level_zero_within_length_witness:
  "(\<forall>t. level (mini_collab False) (backtrack (mini_collab False) 0 t) = 0) \<and>
   level (mini_collab False) (mini_probe [1] formula_link) = 1 \<and>
   (\<exists>s'. check_if_clause_trivial (mini_collab False) opts_bcp 5 [-1, 2]
           (mini_probe [1] formula_link) = Inr (True, s') \<and>
         level (mini_collab False) s' = 0) \<and>
   (\<exists>s'. check_if_clause_trivial (mini_collab False) opts_bcp 5 [] 
           (mini_probe [1] formula_link) = Inr (False, s') \<and>
         level (mini_collab False) s' = 0)"
proof -
  have h: "\<forall>t. level (mini_collab False) (backtrack (mini_collab False) 0 t) = 0"
    by (simp add: mini_backtrack_level)
  have l: "level (mini_collab False) (mini_probe [1] formula_link) = 1" by code_simp
  have "case check_if_clause_trivial (mini_collab False) opts_bcp 5 [-1, 2]
           (mini_probe [1] formula_link) of Inl e \<Rightarrow> False | Inr (b, s') \<Rightarrow> b"
    by code_simp
  then obtain s1 where s1: "check_if_clause_trivial (mini_collab False) opts_bcp 5 [-1, 2]
           (mini_probe [1] formula_link) = Inr (True, s1)"
    by (auto split: sum.splits)
  have "case check_if_clause_trivial (mini_collab False) opts_bcp 5 []
           (mini_probe [1] formula_link) of Inl e \<Rightarrow> False | Inr (b, s') \<Rightarrow> \<not> b"
    by code_simp
  then obtain s2 where s2: "check_if_clause_trivial (mini_collab False) opts_bcp 5 []
           (mini_probe [1] formula_link) = Inr (False, s2)"
    by (auto split: sum.splits)
  have n1: "\<not> int (length [-1, 2 :: int]) > size_t_of_int (globalmaxlen opts_bcp)"
    and n2: "\<not> int (length ([] :: int list)) > size_t_of_int (globalmaxlen opts_bcp)"
    by (simp_all add: size_t_of_int_def opts_bcp_def)
  from C6_level_zero_within_length [OF h s1] n1
  have l1: "level (mini_collab False) s1 = 0" by simp
  from C6_level_zero_within_length [OF h s2] n2
  have l2: "level (mini_collab False) s2 = 0" by simp
  from h l s1 l1 s2 l2 show ?thesis by blast
qed

section \<open>Properties of the least conditional part\<close>

text \<open>Setting and clearing the bits of a list of literals changes the marks only.\<close>

lemma fold_global_setbit:
  "fold (global_setbit E) ls g
     = g\<lparr>globalmarks := globalmarks g \<union> global_index E ` set ls\<rparr>"
  by (induction ls arbitrary: g) (auto simp: global_setbit_def)

lemma fold_global_unsetbit:
  "fold (global_unsetbit E) ls g
     = g\<lparr>globalmarks := globalmarks g - global_index E ` set ls\<rparr>"
proof (induction ls arbitrary: g)
  case Nil
  show ?case by simp
next
  case (Cons l ls)
  have "globalmarks g - {global_index E l} - global_index E ` set ls
          = globalmarks g - global_index E ` set (l # ls)" by auto
  with Cons show ?case by (simp add: global_unsetbit_def)
qed

text \<open>The scan of the database marks exactly the literals it appends to \<^verbatim>\<open>neg_alpha_c\<close>.\<close>

lemma scan_clauses_marks:
  assumes "scan_clauses E cs (neg_alpha_c, times_touched, g) = (neg_alpha_c', times_touched', g')"
  shows "\<exists>added. neg_alpha_c' = neg_alpha_c @ added \<and>
           g' = g\<lparr>globalmarks := globalmarks g \<union> global_index E ` set added\<rparr>"
  using assms
proof (induction cs arbitrary: neg_alpha_c times_touched g)
  case Nil
  then show ?case by simp
next
  case (Cons c cs)
  obtain sat touches tt where sl:
    "scan_lits E g (literals c) (False, [], times_touched) = (sat, touches, tt)"
    by (cases "scan_lits E g (literals c) (False, [], times_touched)") auto
  consider
    (skip) tt0 where "scan_clauses E cs (neg_alpha_c, tt0, g) = (neg_alpha_c', times_touched', g')"
  | (add) "scan_clauses E cs (neg_alpha_c @ touches, tt, fold (global_setbit E) touches g)
             = (neg_alpha_c', times_touched', g')"
    using Cons.prems sl by (auto split: if_splits)
  then show ?case
  proof cases
    case skip
    from Cons.IH [OF skip] show ?thesis .
  next
    case add
    from Cons.IH [OF add] obtain added where
      a: "neg_alpha_c' = (neg_alpha_c @ touches) @ added"
         "g' = (fold (global_setbit E) touches g)
                 \<lparr>globalmarks := globalmarks (fold (global_setbit E) touches g)
                    \<union> global_index E ` set added\<rparr>"
      by blast
    have "neg_alpha_c' = neg_alpha_c @ (touches @ added)" using a(1) by simp
    moreover have "g' = g\<lparr>globalmarks := globalmarks g \<union> global_index E ` set (touches @ added)\<rparr>"
      using a(2) by (simp add: fold_global_setbit Un_assoc image_Un)
    ultimately show ?thesis by blast
  qed
qed

text \<open>Adding and recording clauses does not touch the marks.\<close>

lemma add_clause_marks:
  "add_clause E opts new_clause lit nc autarky g = Inr g' \<Longrightarrow> globalmarks g' = globalmarks g"
  by (auto simp: add_clause_def record_clause_def Let_def split: if_splits)

lemma emit_raw_marks:
  "emit_raw E opts fuel t0 alpha_a cs (adding, g) = Inr (b, g') \<Longrightarrow>
     globalmarks g' = globalmarks g"
proof (induction cs arbitrary: adding g)
  case Nil
  then show ?case by simp
next
  case (Cons new_clause rest)
  consider (timeout) "g' = g"
    | (added) s1 g1 where "add_clause E opts new_clause (last new_clause) new_clause alpha_a
                          (g\<lparr>solver := s1\<rparr>) = Inr g1"
        "emit_raw E opts fuel t0 alpha_a rest (True, g1) = Inr (b, g')"
    | (filtered) s1 where "emit_raw E opts fuel t0 alpha_a rest (True, g\<lparr>solver := s1\<rparr>) = Inr (b, g')"
    using Cons.prems by (auto split: if_splits sum.splits prod.splits)
  then show ?case
  proof cases
    case timeout
    then show ?thesis by simp
  next
    case added
    from Cons.IH [OF added(2)] add_clause_marks [OF added(1)] show ?thesis by simp
  next
    case filtered
    from Cons.IH [OF filtered] show ?thesis by simp
  qed
qed

lemma emit_step_marks:
  "emit_step E opts fuel t0 alpha_a cta useful residual g = Inr (b, g') \<Longrightarrow>
     globalmarks g' = globalmarks g"
  unfolding emit_step_def
  by (auto simp: Let_def split: if_splits sum.splits prod.splits
      dest: emit_raw_marks add_clause_marks)

text \<open>The part that builds the negated conditional part changes the marks only, and
  gives them back as it found them when all were unset.\<close>

lemma conditional_part_state:
  assumes "conditional_part E g = (neg_alpha_c, clauses_to_add, alpha_a, g2)"
  shows "\<exists>m. g2 = g\<lparr>globalmarks := m\<rparr> \<and> (globalmarks g = {} \<longrightarrow> m = {})"
proof -
  obtain nac tt g1 where sc: "scan_clauses E (clauses E (solver g)) ([], [], g) = (nac, tt, g1)"
    by (cases "scan_clauses E (clauses E (solver g)) ([], [], g)") auto
  from scan_clauses_marks [OF sc]
  have g1: "g1 = g\<lparr>globalmarks := globalmarks g \<union> global_index E ` set nac\<rparr>" by auto
  obtain cta a0 where ck: "collect_keys E g1 nac tt ([], []) = (cta, a0)"
    by (cases "collect_keys E g1 nac tt ([], [])") auto
  from assms sc ck have g2: "g2 = fold (global_unsetbit E) nac g1"
    by (auto simp: conditional_part_def)
  have "g2 = g\<lparr>globalmarks := (globalmarks g \<union> global_index E ` set nac)
                                  - global_index E ` set nac\<rparr>"
    unfolding g2 fold_global_unsetbit g1 by simp
  then show ?thesis by auto
qed

text \<open>
  C9: if every bit of \<^verbatim>\<open>globalmarks\<close> is unset when \<^verbatim>\<open>least_conditional_part\<close> is called,
  then every bit is unset again at every return of that call; the marks set while the
  negated conditional part is built are all cleared before the function can be left,
  that is before the antecedents are sorted.
\<close>

theorem C9_marks_all_unset_on_return:
  assumes "globalmarks g = {}"
  shows "(\<forall>adding_a_clause g'.
            least_conditional_part E opts fuel original_time g = Inr (adding_a_clause, g') \<longrightarrow>
            globalmarks g' = {}) \<and>
         (\<forall>neg_alpha_c clauses_to_add alpha_a g2.
            conditional_part E g = (neg_alpha_c, clauses_to_add, alpha_a, g2) \<longrightarrow>
            globalmarks g2 = {})"
proof (intro conjI allI impI)
  fix neg_alpha_c clauses_to_add alpha_a g2
  assume "conditional_part E g = (neg_alpha_c, clauses_to_add, alpha_a, g2)"
  from conditional_part_state [OF this] assms show "globalmarks g2 = {}" by auto
next
  fix adding_a_clause g'
  assume r: "least_conditional_part E opts fuel original_time g = Inr (adding_a_clause, g')"
  obtain nac cta a0 g2 where cp: "conditional_part E g = (nac, cta, a0, g2)"
    by (cases "conditional_part E g") auto
  from conditional_part_state [OF cp] assms have g2: "globalmarks g2 = {}" by auto
  from r cp consider
    (early) s4 where "g' = g2\<lparr>solver := s4\<rparr>"
  | (emit) alpha_a useful residual s4 where
      "emit_step E opts fuel original_time alpha_a cta useful residual (g2\<lparr>solver := s4\<rparr>)
         = Inr (adding_a_clause, g')"
    by (auto simp: least_conditional_part_def split: sum.splits prod.splits)
  then show "globalmarks g' = {}"
  proof cases
    case early
    with g2 show ?thesis by simp
  next
    case emit
    from emit_step_marks [OF emit] g2 show ?thesis by simp
  qed
qed

theorem C9_marks_all_unset_on_return_witness:
  "globalmarks (ginit (mini_probe [1] formula_link)) = {} \<and>
   (case least_conditional_part (mini_collab False) opts_bcp 5 0
           (ginit (mini_probe [1] formula_link)) of
      Inl e \<Rightarrow> False
    | Inr (adding_a_clause, g') \<Rightarrow> learnt g' = [[-1, 2]] \<and> globalmarks g' = {})"
proof -
  have m: "globalmarks (ginit (mini_probe [1] formula_link) :: mini gstate) = {}"
    by (simp add: ginit_def)
  have "case least_conditional_part (mini_collab False) opts_bcp 5 0
           (ginit (mini_probe [1] formula_link)) of
      Inl e \<Rightarrow> False
    | Inr (adding_a_clause, g') \<Rightarrow> learnt g' = [[-1, 2]]"
    by code_simp
  then obtain b g' where r: "least_conditional_part (mini_collab False) opts_bcp 5 0
           (ginit (mini_probe [1] formula_link)) = Inr (b, g')" and l: "learnt g' = [[-1, 2]]"
    by (auto split: sum.splits)
  from C9_marks_all_unset_on_return [OF m] r have "globalmarks g' = {}" by blast
  with m r l show ?thesis by simp
qed


























section \<open>Properties of the two drivers\<close>

text \<open>Beyond the budget the outer loop ends at its first check, whatever counts are left.\<close>

lemma candidate_loop_over_budget:
  "time_now E (solver g) - original_time > globaltimelim opts \<Longrightarrow>
   candidate_loop E opts fuel rnd original_time sorted_literals counts g = Inr (Next g)"
  by (cases counts) simp_all

text \<open>
  C8, amended: in the exhaustive driver the time budget is checked at the top of the
  loop over the candidate literals and at the top of the loop over the touched
  literals; when the clock is beyond the budget there, the loop ends at once, with no
  further assumption and the state as it is at the check (the outer loop goes to the
  final test of \<^verbatim>\<open>unsat\<close>, the inner loop to the test of \<^verbatim>\<open>unsat\<close> that follows it).  In
  particular, with a budget that is exceeded from the start the driver returns right
  after opening its outputs.  The fixed-schedule driver has no such check.
\<close>

theorem C8_budget_ends_exhaustive_loops:
  assumes "time_now E (solver g) - original_time > globaltimelim opts"
  shows
   "candidate_loop E opts fuel rnd original_time sorted_literals counts g
      = Inr (Next g) \<and>
    touched_loop E opts fuel original_time i touched_literals g = Inr (unsat_check E g) \<and>
    (globaltimelim opts < 0 \<longrightarrow>
       global_preprocess E opts fuel rnd True g0
         = Inr (if unsat E (solver g0) then 20 else 0,
                g0\<lparr>globalmarks := {}, outFile := [], outFile_pr := []\<rparr>))"
proof (intro conjI impI)
  from assms show "candidate_loop E opts fuel rnd original_time sorted_literals counts g
      = Inr (Next g)" by (rule candidate_loop_over_budget)
  from assms show "touched_loop E opts fuel original_time i touched_literals g
      = Inr (unsat_check E g)" by (cases touched_literals) simp_all
next
  assume neg: "globaltimelim opts < 0"
  let ?g = "g0\<lparr>globalmarks := {}, outFile := [], outFile_pr := []\<rparr>"
  have "time_now E (solver ?g) - time_now E (solver ?g) > globaltimelim opts"
    using neg by simp
  from candidate_loop_over_budget [OF this]
  show "global_preprocess E opts fuel rnd True g0
         = Inr (if unsat E (solver g0) then 20 else 0, ?g)"
    by (simp add: global_preprocess_def open_outputs_def Let_def)
qed

theorem C8_budget_ends_exhaustive_loops_witness:
  "(case global_preprocess (mini_collab False) opts_budget0 5 (\<lambda>n. 0) True (ginit formula_180) of
      Inl e \<Rightarrow> False | Inr (status, g') \<Rightarrow> status = 0) \<and>
   time_now (mini_collab False) (mini_probe [1] formula_180) - 0 > globaltimelim opts_budget0 \<and>
   candidate_loop (mini_collab False) opts_budget0 5 (\<lambda>n. 0) 0 [] [2, 3]
       (ginit (mini_probe [1] formula_180)) = Inr (Next (ginit (mini_probe [1] formula_180))) \<and>
   touched_loop (mini_collab False) opts_budget0 5 0 1 [2, 3]
       (ginit (mini_probe [1] formula_180))
     = Inr (unsat_check (mini_collab False) (ginit (mini_probe [1] formula_180)))"
proof -
  let ?g = "ginit (mini_probe [1] formula_180)"
  have r: "case global_preprocess (mini_collab False) opts_budget0 5 (\<lambda>n. 0) True
                 (ginit formula_180) of
      Inl e \<Rightarrow> False | Inr (status, g') \<Rightarrow> status = 0"
    by code_simp
  have t: "time_now (mini_collab False) (solver ?g) - 0 > globaltimelim opts_budget0"
    by code_simp
  then have t': "time_now (mini_collab False) (mini_probe [1] formula_180) - 0
                   > globaltimelim opts_budget0"
    by (simp add: ginit_def)
  from C8_budget_ends_exhaustive_loops [OF t, of 5 "\<lambda>n. 0" "[]" "[2, 3]" 1 "[2, 3]"] r t'
  show ?thesis by blast
qed

text \<open>
  C8, as stated (both drivers check the budget at the top of their loops, and leave
  the solver at a backtracked level when it is exceeded).  On \<open>formula_180\<close> with the
  budget 0: after the first batch of the schedule the clock is beyond the budget, yet
  the fixed-schedule driver goes on with the second batch and finds the formula
  unsatisfiable there (status 20, \<^verbatim>\<open>global_try\<close> is the second row's); the exhaustive
  driver stops at the top of its second iteration with status 0, and the solver is
  left at level 1, after the probe of \<open>\<not>x1\<close>.
\<close>

theorem C8_chess_ignores_budget_counterexample:
  "(case chess_rounds (mini_collab False) opts_budget0 5 0 (take 1 asses) (ginit formula_180) of
      Inl e \<Rightarrow> False
    | Inr (status, g1) \<Rightarrow>
        status = 0 \<and> time_now (mini_collab False) (solver g1) - 0 > globaltimelim opts_budget0) \<and>
   (case global_preprocess_chess (mini_collab False) opts_budget0 5 True (ginit formula_180) of
      Inl e \<Rightarrow> False
    | Inr (status, g') \<Rightarrow> status = 20 \<and> global_try g' = [-93, -92]) \<and>
   (case global_preprocess (mini_collab False) opts_budget0 5 (\<lambda>n. 0) True (ginit formula_180) of
      Inl e \<Rightarrow> False
    | Inr (status, g') \<Rightarrow>
        status = 0 \<and> level (mini_collab False) (solver g') = 1 \<and>
        time_now (mini_collab False) (solver g') - 0 > globaltimelim opts_budget0)"
  by code_simp

text \<open>
  C10 (the claim: every literal that \<^verbatim>\<open>global_preprocess_chess\<close> takes from its schedule
  and hands to \<^verbatim>\<open>flags\<close>, \<^verbatim>\<open>val\<close> or \<^verbatim>\<open>search_assume_decision\<close> is a variable of the
  formula).  The code has no such guard.  On the spec's two-variable formula the first
  batch is \<open>[1, 10]\<close>: the assumption \<open>x1\<close> goes through, then \<^verbatim>\<open>flags (10)\<close> is called
  with \<^verbatim>\<open>max_var\<close> equal to 2, outside the tables.
\<close>

theorem C10_schedule_literal_beyond_max_var:
  "max_var (mini_collab False) formula_two = 2 \<and>
   global_preprocess_chess (mini_collab False) opts_bcp 5 True (ginit formula_two)
     = Inl UndefinedBehaviour \<and>
   fst (asses ! 0) = [1, 10] \<and>
   (case assume_batch (mini_collab False) 5 [1] (solver (ginit formula_two)) of
      Inl e \<Rightarrow> False
    | Inr (try_learn, s) \<Rightarrow> try_learn \<and> \<not> in_range (mini_collab False) s 10)"
  by code_simp

end
